theory Spec2Isabelle
  imports Complex_Main "HOL-Library.Log_Nat"
begin

section \<open>Data model of the world server (src/server.js, src/models/items.js)\<close>

text \<open>
  A JavaScript number is a binary64 double; the model holds the real number it denotes.
  Every arithmetic step of the server (\<open>+\<close>, \<open>-\<close>, \<open>Math.pow(x, 2)\<close>, \<open>Math.sqrt\<close>)
  is the exact result rounded to the nearest double by \<open>fl\<close> below, and a decimal
  literal of the source such as \<open>0.001\<close> is \<open>fl 0.001\<close>, the double it denotes.
  Comparisons, \<open>Math.max\<close> and \<open>Math.min\<close> are exact on doubles. A magnitude of
  \<open>2 ^ 1024\<close> or more stands for an infinity; \<open>NaN\<close> does not arise from the finite
  numbers a JSON message carries. Strings are \<open>char list\<close>; a character stands for a
  code unit below 256. A property that a JSON message or an object may lack is an
  \<open>option\<close>.
\<close>

subsection \<open>Rounding to binary64\<close>

text \<open>\<open>ilog2 x\<close> is the binary exponent of a positive \<open>x\<close>.\<close>

definition ilog2 :: "real \<Rightarrow> int" where
  "ilog2 x = \<lfloor>log 2 x\<rfloor>"

text \<open>Rounding to the nearest integer, a tie going to the even one.\<close>

definition roundHalfEven :: "real \<Rightarrow> int" where
  "roundHalfEven y =
     (let f = \<lfloor>y\<rfloor>; d = y - of_int f
      in if d < 1 / 2 then f else if 1 / 2 < d then f + 1 else if even f then f else f + 1)"

text \<open>
  Round to nearest, ties to even, with a 53-bit significand; below \<open>2 ^ -1022\<close> the
  spacing stays \<open>2 ^ -1074\<close> (subnormal numbers).
\<close>

definition fl :: "real \<Rightarrow> real" where
  "fl x =
     (if x = 0 then 0
      else (let e = max (ilog2 \<bar>x\<bar> - 52) (- 1074)
            in sgn x * of_int (roundHalfEven (\<bar>x\<bar> / 2 powi e)) * 2 powi e))"

text \<open>
  \<open>Math.sqrt\<close> and \<open>Math.pow(x, 2)\<close>. ECMAScript leaves their accuracy to the
  implementation; the model takes the correctly rounded square root and square.
\<close>

definition Math_sqrt :: "real \<Rightarrow> real" where
  "Math_sqrt x = fl (sqrt x)"

definition Math_pow2 :: "real \<Rightarrow> real" where
  "Math_pow2 x = fl (x * x)"

subsection \<open>Records\<close>

record position =
  lat :: real
  lng :: real

text \<open>The \<open>stats\<close> object of an item template: each template sets one of the four keys.\<close>

record itemStats =
  stat_attack :: "real option"
  stat_defense :: "real option"
  stat_heal :: "real option"
  stat_value :: "real option"

text \<open>
  An item instance (\<open>ItemTemplate.createItem\<close> plus the custom properties the server adds).
  \<open>templateId\<close> is the source's \<open>id\<close>, \<open>item_type\<close> its \<open>type\<close>. The fields \<open>rarity\<close>,
  \<open>description\<close>, \<open>imageUrl\<close> and \<open>createdAt\<close> are never read by the server and are left out.
  \<open>collectorId\<close> is \<open>None\<close> for both \<open>undefined\<close> and \<open>null\<close>; a missing
  \<open>beingCollected\<close> is \<open>False\<close>.
\<close>

record item =
  templateId :: string
  item_name :: string
  item_type :: string
  item_stats :: itemStats
  itemId :: string
  item_position :: "position option"
  collectionTime :: real
  beingCollected :: bool
  collectorId :: "string option"

text \<open>A player record; the constant \<open>stats\<close> block (strength and so on) is never read.\<close>

record player =
  player_id :: string
  player_name :: string
  player_position :: "position option"
  avatar :: string
  hp :: real
  level :: real
  xp :: real
  gold :: real
  inventory :: "item list"
  lastMessage :: "string option"

text \<open>
  A parsed inbound message: the discriminator and every field a handler reads, each
  with the JSON type the handlers expect (a string, a number, a \<open>{lat, lng}\<close> object
  of numbers); \<open>None\<close> is a field that is absent.
\<close>

record msg =
  msg_type :: string
  msg_playerId :: "string option"
  msg_position :: "position option"
  msg_message :: "string option"
  msg_itemId :: "string option"
  msg_targetPlayerId :: "string option"
  msg_weaponId :: "string option"
  msg_damage :: "real option"
  msg_healAmount :: "real option"
  msg_profilePlayerId :: "string option"
  msg_name :: "string option"
  msg_avatar :: "string option"

text \<open>
  Outbound messages. The structured fields are kept; the human-readable \<open>message\<close> text is
  kept only where it is what tells two replies of one type apart.
\<close>

datatype outMsg =
    Init string string player "string \<rightharpoonup> player" "item list" "string list"
  | PlayerJoined player
  | PlayerLeft string
  | WorldUpdate "string \<rightharpoonup> player" "item list"
  | ItemSpawned item
  | CollectionStarted string real
  | CollectionComplete string real "item list"
  | CollectionCanceled "string option"
  | CollectionError string
  | ItemUsed string "real option" "real option"
  | WeaponReady string real
  | AttackSuccess string real
  | Attacked string real real
  | AttackFailed string
  | HealSuccess string real
  | Healed string real real
  | HealFailed string
  | ItemDropped string
  | ProfileData "player option" bool

text \<open>A member of \<open>wss.clients\<close>: its \<open>clientId\<close> and whether \<open>readyState\<close> is \<open>OPEN\<close>.\<close>

record client =
  client_id :: string
  ready_open :: bool

text \<open>The closure variables of one connection handler.\<close>

record conn =
  clientId :: string
  playerId :: string

text \<open>
  A pending \<open>setTimeout\<close> callback of \<open>pickup_item\<close>: the captured \<open>item\<close>, \<open>playerId\<close>
  and socket. The callback reads only \<open>itemId\<close>, \<open>type\<close> and \<open>stats\<close> of the captured
  object, which are never assigned after creation, so the captured value stands for
  the captured reference.
\<close>

record timer =
  timer_item :: item
  timer_playerId :: string
  timer_clientId :: string
  timer_delay :: real

record state =
  players :: "string \<rightharpoonup> player"
  worldItems :: "item list"
  clientSessions :: "string \<rightharpoonup> string"
  clients :: "client list"
  avatars :: "string list"
  timers :: "timer list"

text \<open>What a handler sends, in order: the \<open>clientId\<close> of the socket and the message.\<close>

type_synonym outbox = "(string \<times> outMsg) list"

text \<open>What the server can throw: a property read on \<open>undefined\<close>, and the \<open>Error\<close> of
  \<open>createItemFromTemplate\<close> for an unknown template.\<close>

datatype jsError = TypeError | TemplateNotFound

section \<open>Helpers\<close>

text \<open>\<open>Array.prototype.findIndex\<close>; \<open>None\<close> is the source's \<open>-1\<close>.\<close>

fun findIndex :: "('a \<Rightarrow> bool) \<Rightarrow> 'a list \<Rightarrow> nat option" where
  "findIndex P [] = None"
| "findIndex P (x # xs) = (if P x then Some 0 else map_option Suc (findIndex P xs))"

text \<open>\<open>xs.splice(i, 1)\<close>.\<close>

definition splice1 :: "nat \<Rightarrow> 'a list \<Rightarrow> 'a list" where
  "splice1 i xs = take i xs @ drop (Suc i) xs"

text \<open>\<open>x || d\<close> on an optional number: \<open>undefined\<close> and \<open>0\<close> are falsy.\<close>

definition orDefault :: "real option \<Rightarrow> real \<Rightarrow> real" where
  "orDefault x d = (case x of None \<Rightarrow> d | Some v \<Rightarrow> if v \<noteq> 0 then v else d)"

text \<open>\<open>Math.sqrt(Math.pow(a.lat - b.lat, 2) + Math.pow(a.lng - b.lng, 2))\<close>.\<close>

definition distance :: "position \<Rightarrow> position \<Rightarrow> real" where
  "distance a b =
     Math_sqrt (fl (Math_pow2 (fl (lat a - lat b)) + Math_pow2 (fl (lng a - lng b))))"

text \<open>
  The two proximity tests of the handlers: \<open>dist < 0.001\<close> in \<open>pickup_item\<close>, and
  \<open>dist <= 0.0002\<close> in \<open>attack_player\<close> and \<open>heal_player\<close>.
\<close>

definition pickupInRange :: "position \<Rightarrow> position \<Rightarrow> bool" where
  "pickupInRange itemPos playerPos = (distance itemPos playerPos < fl 0.001)"

definition actionInRange :: "position \<Rightarrow> position \<Rightarrow> bool" where
  "actionInRange targetPos actorPos = (distance targetPos actorPos \<le> fl 0.0002)"

definition isAuthorizedForPlayer :: "state \<Rightarrow> string \<Rightarrow> string \<Rightarrow> bool" where
  "isAuthorizedForPlayer s cid targetPlayerId = (clientSessions s cid = Some targetPlayerId)"

text \<open>The \<open>world_update\<close> sent to every client whose socket is open.\<close>

definition broadcast :: "state \<Rightarrow> outbox" where
  "broadcast s =
     map (\<lambda>cl. (client_id cl, WorldUpdate (players s) (worldItems s)))
         (filter ready_open (clients s))"

subsection \<open>Name sanitising: \<open>replace(/[^\w\s-]/gi, '').substring(0, 20)\<close>\<close>

definition isWordChar :: "char \<Rightarrow> bool" where
  "isWordChar c =
     (let n = (of_char c :: nat)
      in (48 \<le> n \<and> n \<le> 57) \<or> (65 \<le> n \<and> n \<le> 90) \<or> n = 95 \<or> (97 \<le> n \<and> n \<le> 122))"

text \<open>\<open>\s\<close> below 256: tab, line feed, vertical tab, form feed, carriage return, space,
  no-break space.\<close>

definition isSpaceChar :: "char \<Rightarrow> bool" where
  "isSpaceChar c = (let n = (of_char c :: nat) in (9 \<le> n \<and> n \<le> 13) \<or> n = 32 \<or> n = 160)"

definition keptChar :: "char \<Rightarrow> bool" where
  "keptChar c = (isWordChar c \<or> isSpaceChar c \<or> c = CHR ''-'')"

definition sanitizeName :: "string \<Rightarrow> string" where
  "sanitizeName n = take 20 (filter keptChar n)"

section \<open>The item catalogue (src/models/items.js)\<close>

definition noStats :: itemStats where
  "noStats = \<lparr>stat_attack = None, stat_defense = None, stat_heal = None, stat_value = None\<rparr>"

text \<open>\<open>ITEM_TEMPLATES\<close>: for a template id, its name, type and stats.\<close>

definition ITEM_TEMPLATES :: "string \<Rightarrow> (string \<times> string \<times> itemStats) option" where
  "ITEM_TEMPLATES tid =
     (if tid = ''iron-sword'' then Some (''Iron Sword'', ''weapon'', noStats\<lparr>stat_attack := Some 5\<rparr>)
      else if tid = ''steel-sword'' then Some (''Steel Sword'', ''weapon'', noStats\<lparr>stat_attack := Some 10\<rparr>)
      else if tid = ''leather-armor'' then Some (''Leather Armor'', ''armor'', noStats\<lparr>stat_defense := Some 3\<rparr>)
      else if tid = ''health-potion'' then Some (''Health Potion'', ''consumable'', noStats\<lparr>stat_heal := Some 20\<rparr>)
      else if tid = ''gold-coin'' then Some (''Gold Coin'', ''collectible'', noStats\<lparr>stat_value := Some 1\<rparr>)
      else None)"

text \<open>
  \<open>createItemFromTemplate(templateId, {position, collectionTime})\<close>. The generated
  \<open>itemId\<close> is the template id, a hyphen and a stamp; the stamp (the text of
  \<open>Date.now()\<close>, a hyphen and a random number below 1000) is an argument. \<open>None\<close> is the
  \<open>Error\<close> thrown for an unknown template.
\<close>

definition createItemFromTemplate :: "string \<Rightarrow> string \<Rightarrow> position \<Rightarrow> real \<Rightarrow> item option" where
  "createItemFromTemplate tid stamp pos ct =
     (case ITEM_TEMPLATES tid of
        None \<Rightarrow> None
      | Some (nm, ty, st) \<Rightarrow>
          Some \<lparr>templateId = tid, item_name = nm, item_type = ty, item_stats = st,
                itemId = tid @ ''-'' @ stamp, item_position = Some pos, collectionTime = ct,
                beingCollected = False, collectorId = None\<rparr>)"

text \<open>
  The four initial items, created only while the world is empty; \<open>stamp k\<close> is the stamp
  of the \<open>k\<close>-th created item.
\<close>

definition createInitialItemsNearPosition :: "real \<Rightarrow> real \<Rightarrow> (nat \<Rightarrow> string) \<Rightarrow> state \<Rightarrow> state" where
  "createInitialItemsNearPosition lat0 lng0 stamp s =
     (if length (worldItems s) = 0 then
        s\<lparr>worldItems := List.map_filter (\<lambda>x. x)
             [createItemFromTemplate ''health-potion'' (stamp 0) \<lparr>lat = lat0, lng = fl (lng0 + fl 0.0002)\<rparr> 2000,
              createItemFromTemplate ''iron-sword'' (stamp 1) \<lparr>lat = fl (lat0 + fl 0.0002), lng = fl (lng0 - fl 0.0001)\<rparr> 5000,
              createItemFromTemplate ''gold-coin'' (stamp 2) \<lparr>lat = fl (lat0 - fl 0.0001), lng = fl (lng0 + fl 0.0001)\<rparr> 1000,
              createItemFromTemplate ''leather-armor'' (stamp 3) \<lparr>lat = fl (lat0 + fl 0.0001), lng = fl (lng0 - fl 0.0002)\<rparr> 3000]\<rparr>
      else s)"

text \<open>
  \<open>spawnNewItems\<close>, the timer that adds one item and re-arms itself. What it draws
  at random is an argument: the index \<open>k\<close> into \<open>itemTypes\<close> (below 4), the stamp and the
  position (within 0.0008 of the first player, or of the default position).
\<close>

definition spawnNewItems :: "nat \<Rightarrow> string \<Rightarrow> position \<Rightarrow> state \<Rightarrow> jsError + (state \<times> outbox)" where
  "spawnNewItems k stamp pos s =
     (if k < 4 then
        (let randomItemType = [''health-potion'', ''iron-sword'', ''gold-coin'', ''leather-armor''] ! k;
             ct = [2000, 5000, 1000, 3000] ! k
         in case createItemFromTemplate randomItemType stamp pos ct of
              None \<Rightarrow> Inl TemplateNotFound
            | Some newItem \<Rightarrow>
                Inr (s\<lparr>worldItems := worldItems s @ [newItem]\<rparr>,
                     map (\<lambda>cl. (client_id cl, ItemSpawned newItem))
                         (filter ready_open (clients s))))
      else Inl TemplateNotFound)"

section \<open>The message handlers of a connection (the \<open>switch\<close> of \<open>ws.on("message")\<close>)\<close>

text \<open>
  Every handler returns \<open>None\<close> where the source throws a \<open>TypeError\<close> (a property read
  on \<open>undefined\<close>): in each handler that happens before anything is assigned or sent.
  \<open>players[playerId]\<close> for the connection's own \<open>playerId\<close>, a version 4 UUID, is the
  lookup of an own property.
\<close>

definition update_position :: "conn \<Rightarrow> msg \<Rightarrow> state \<Rightarrow> (state \<times> outbox) option" where
  "update_position c data s =
     (case players s (playerId c) of
        None \<Rightarrow> None
      | Some me \<Rightarrow>
          Some (s\<lparr>players := (players s)(playerId c \<mapsto> me\<lparr>player_position := msg_position data\<rparr>)\<rparr>, []))"

definition chat_message :: "conn \<Rightarrow> msg \<Rightarrow> state \<Rightarrow> (state \<times> outbox) option" where
  "chat_message c data s =
     (case players s (playerId c) of
        None \<Rightarrow> None
      | Some me \<Rightarrow>
          Some (s\<lparr>players := (players s)(playerId c \<mapsto> me\<lparr>lastMessage := msg_message data\<rparr>)\<rparr>, []))"

definition pickup_item :: "conn \<Rightarrow> msg \<Rightarrow> state \<Rightarrow> (state \<times> outbox) option" where
  "pickup_item c data s =
     (case findIndex (\<lambda>i. Some (itemId i) = msg_itemId data) (worldItems s) of
        None \<Rightarrow> Some (s, [])
      | Some itemIndex \<Rightarrow>
         (case players s (playerId c) of
            None \<Rightarrow> None
          | Some me \<Rightarrow>
             (case item_position (worldItems s ! itemIndex) of
                None \<Rightarrow> None
              | Some itemPos \<Rightarrow>
                 (case player_position me of
                    None \<Rightarrow> None
                  | Some playerPos \<Rightarrow>
                     if pickupInRange itemPos playerPos then
                       (let it = worldItems s ! itemIndex in
                        if \<not> beingCollected it then
                          (let it' = it\<lparr>beingCollected := True, collectorId := Some (playerId c)\<rparr>;
                               ct = (if collectionTime it \<noteq> 0 then collectionTime it else 3000)
                           in Some (s\<lparr>worldItems := (worldItems s)[itemIndex := it'],
                                      timers := timers s @
                                        [\<lparr>timer_item = it', timer_playerId = playerId c,
                                          timer_clientId = clientId c, timer_delay = ct\<rparr>]\<rparr>,
                                    [(clientId c, CollectionStarted (itemId it) ct)]))
                        else if collectorId it \<noteq> Some (playerId c) then
                          Some (s, [(clientId c,
                                     CollectionError ''This item is being collected by another player'')])
                        else Some (s, []))
                     else Some (s, [(clientId c, CollectionError ''Item is too far away to collect'')])))))"

definition cancel_collection :: "conn \<Rightarrow> msg \<Rightarrow> state \<Rightarrow> (state \<times> outbox) option" where
  "cancel_collection c data s =
     (case findIndex (\<lambda>i. Some (itemId i) = msg_itemId data \<and> collectorId i = Some (playerId c))
             (worldItems s) of
        None \<Rightarrow> Some (s, [])
      | Some k \<Rightarrow>
          Some (s\<lparr>worldItems :=
                    (worldItems s)[k := (worldItems s ! k)\<lparr>beingCollected := False, collectorId := None\<rparr>]\<rparr>,
                [(clientId c, CollectionCanceled (msg_itemId data))]))"

definition use_item :: "conn \<Rightarrow> msg \<Rightarrow> state \<Rightarrow> (state \<times> outbox) option" where
  "use_item c data s =
     (case players s (playerId c) of
        None \<Rightarrow> None
      | Some me \<Rightarrow>
         (case findIndex (\<lambda>i. Some (itemId i) = msg_itemId data) (inventory me) of
            None \<Rightarrow> Some (s, [])
          | Some k \<Rightarrow>
             (let it = inventory me ! k in
              if item_type it = ''consumable'' then
                (if orDefault (stat_heal (item_stats it)) 0 \<noteq> 0 then
                   (let h = orDefault (stat_heal (item_stats it)) 0;
                        me' = me\<lparr>hp := min 100 (fl (hp me + h)), inventory := splice1 k (inventory me)\<rparr>
                    in Some (s\<lparr>players := (players s)(playerId c \<mapsto> me')\<rparr>,
                             [(clientId c, ItemUsed ''heal'' (Some (hp me')) (Some h))]))
                 else Some (s, []))
              else if item_type it = ''weapon'' then
                Some (s, [(clientId c, WeaponReady (itemId it) (orDefault (stat_attack (item_stats it)) 5))])
              else if item_type it = ''armor'' then
                Some (s\<lparr>players := (players s)(playerId c \<mapsto> me\<lparr>inventory := splice1 k (inventory me)\<rparr>)\<rparr>,
                      [(clientId c, ItemUsed ''equip'' None None)])
              else
                Some (s\<lparr>players := (players s)(playerId c \<mapsto> me\<lparr>inventory := splice1 k (inventory me)\<rparr>)\<rparr>,
                      [(clientId c, ItemUsed ''generic'' None None)]))))"

text \<open>
  The first open client whose session is bound to the target key of the message
  (\<open>clientSessions.get(client.clientId) === targetPlayerId\<close>).
\<close>

definition targetClient :: "state \<Rightarrow> string option \<Rightarrow> client option" where
  "targetClient s k =
     find (\<lambda>cl. ready_open cl \<and> clientSessions s (client_id cl) = k) (clients s)"

text \<open>
  \<open>players[k]\<close> for a key \<open>k\<close> taken from a message. \<open>players\<close> is a plain object
  (\<open>const players = {}\<close>): a key that is not an own property is looked up in
  \<open>Object.prototype\<close>, whose property names in Node are \<open>inheritedKeys\<close>. Their values
  (functions, and the prototype itself for \<open>__proto__\<close>) are truthy and have no
  \<open>position\<close>. An absent key is read as the string \<open>undefined\<close>.
\<close>

datatype 'a property = Missing | Inherited | Own 'a

definition inheritedKeys :: "string list" where
  "inheritedKeys =
     [''constructor'', ''__defineGetter__'', ''__defineSetter__'', ''hasOwnProperty'',
      ''__lookupGetter__'', ''__lookupSetter__'', ''isPrototypeOf'', ''propertyIsEnumerable'',
      ''toString'', ''valueOf'', ''__proto__'', ''toLocaleString'']"

definition keyOf :: "string option \<Rightarrow> string" where
  "keyOf k = (case k of None \<Rightarrow> ''undefined'' | Some pid \<Rightarrow> pid)"

definition lookupPlayer :: "state \<Rightarrow> string option \<Rightarrow> player property" where
  "lookupPlayer s k =
     (case players s (keyOf k) of
        Some p \<Rightarrow> Own p
      | None \<Rightarrow> if keyOf k \<in> set inheritedKeys then Inherited else Missing)"

text \<open>
  In \<open>attack_player\<close> and \<open>heal_player\<close> an inherited target passes the first test; once
  the weapon or the healing item is found, reading \<open>targetPos.lat\<close> of its missing
  \<open>position\<close> throws.
\<close>

definition attack_player :: "conn \<Rightarrow> msg \<Rightarrow> state \<Rightarrow> (state \<times> outbox) option" where
  "attack_player c data s =
     (let targetPlayerId = msg_targetPlayerId data;
          damage = orDefault (msg_damage data) 5 in
      case lookupPlayer s targetPlayerId of
        Missing \<Rightarrow> Some (s, [(clientId c, AttackFailed ''Target player not found!'')])
      | target \<Rightarrow>
         (case players s (playerId c) of
            None \<Rightarrow> None
          | Some me \<Rightarrow>
             (case findIndex (\<lambda>i. Some (itemId i) = msg_weaponId data \<and> item_type i = ''weapon'')
                     (inventory me) of
                None \<Rightarrow> Some (s, [(clientId c, AttackFailed ''Weapon not found in your inventory!'')])
              | Some weaponIndex \<Rightarrow>
                 (case target of
                    Own tgt \<Rightarrow>
                     (case player_position tgt of
                        None \<Rightarrow> None
                      | Some targetPos \<Rightarrow>
                         (case player_position me of
                            None \<Rightarrow> None
                          | Some attackerPos \<Rightarrow>
                             if actionInRange targetPos attackerPos then
                               (let tgt' = tgt\<lparr>hp := max 0 (fl (hp tgt - damage))\<rparr>;
                                    s' = s\<lparr>players := (players s)(keyOf targetPlayerId \<mapsto> tgt')\<rparr>
                                in Some (s',
                                     (clientId c, AttackSuccess (player_name tgt') damage) #
                                     (case targetClient s' targetPlayerId of
                                        None \<Rightarrow> []
                                      | Some cl \<Rightarrow>
                                          [(client_id cl,
                                            Attacked (player_name me) damage (hp tgt'))])))
                             else Some (s, [(clientId c,
                                             AttackFailed ''Target is too far away to attack!'')])))
                  | _ \<Rightarrow> None))))"

definition heal_player :: "conn \<Rightarrow> msg \<Rightarrow> state \<Rightarrow> (state \<times> outbox) option" where
  "heal_player c data s =
     (let healTargetId = msg_targetPlayerId data;
          healAmount = orDefault (msg_healAmount data) 20 in
      case lookupPlayer s healTargetId of
        Missing \<Rightarrow> Some (s, [(clientId c, HealFailed ''Target player not found!'')])
      | target \<Rightarrow>
         (case players s (playerId c) of
            None \<Rightarrow> None
          | Some me \<Rightarrow>
             (case findIndex (\<lambda>i. Some (itemId i) = msg_itemId data \<and> item_type i = ''consumable'')
                     (inventory me) of
                None \<Rightarrow> Some (s, [(clientId c, HealFailed ''Healing item not found in your inventory!'')])
              | Some healItemIndex \<Rightarrow>
                 (case target of
                    Own tgt \<Rightarrow>
                     (case player_position tgt of
                        None \<Rightarrow> None
                      | Some targetPos \<Rightarrow>
                         (case player_position me of
                            None \<Rightarrow> None
                          | Some healerPos \<Rightarrow>
                             if actionInRange targetPos healerPos then
                               (let healItem = inventory me ! healItemIndex;
                                    actualHealAmount = orDefault (stat_heal (item_stats healItem)) healAmount;
                                    tgt' = tgt\<lparr>hp := min 100 (fl (hp tgt + actualHealAmount))\<rparr>;
                                    me1 = (if keyOf healTargetId = playerId c then tgt' else me);
                                    me' = me1\<lparr>inventory := splice1 healItemIndex (inventory me1)\<rparr>;
                                    s' = s\<lparr>players := (players s)(keyOf healTargetId \<mapsto> tgt',
                                                                     playerId c \<mapsto> me')\<rparr>
                                in Some (s',
                                     (clientId c, HealSuccess (player_name tgt') actualHealAmount) #
                                     (case targetClient s' healTargetId of
                                        None \<Rightarrow> []
                                      | Some cl \<Rightarrow>
                                          [(client_id cl,
                                            Healed (player_name me) actualHealAmount (hp tgt'))])))
                             else Some (s, [(clientId c,
                                             HealFailed ''Target is too far away to heal!'')])))
                  | _ \<Rightarrow> None))))"

text \<open>\<open>stamp\<close> is the stamp of the dropped item's fresh \<open>itemId\<close>.\<close>

definition drop_item :: "conn \<Rightarrow> string \<Rightarrow> msg \<Rightarrow> state \<Rightarrow> (state \<times> outbox) option" where
  "drop_item c stamp data s =
     (case players s (playerId c) of
        None \<Rightarrow> None
      | Some me \<Rightarrow>
         (case findIndex (\<lambda>i. Some (itemId i) = msg_itemId data) (inventory me) of
            None \<Rightarrow> Some (s, [])
          | Some dropItemIndex \<Rightarrow>
             (let droppedItem = inventory me ! dropItemIndex;
                  me' = me\<lparr>inventory := splice1 dropItemIndex (inventory me)\<rparr>;
                  newWorldItem = droppedItem\<lparr>itemId := templateId droppedItem @ ''-'' @ stamp,
                                             item_position := player_position me',
                                             collectionTime := 1000,
                                             beingCollected := False,
                                             collectorId := None\<rparr>
              in Some (s\<lparr>players := (players s)(playerId c \<mapsto> me'),
                         worldItems := worldItems s @ [newWorldItem]\<rparr>,
                       [(clientId c, ItemDropped (item_name droppedItem))]))))"

text \<open>
  \<open>view_profile\<close>: for an inherited key the reply carries no player record
  (\<open>JSON.stringify\<close> drops a function; the prototype is the empty object).
\<close>

definition view_profile :: "conn \<Rightarrow> msg \<Rightarrow> state \<Rightarrow> (state \<times> outbox) option" where
  "view_profile c data s =
     (let profilePlayerId = msg_profilePlayerId data in
      case lookupPlayer s profilePlayerId of
        Missing \<Rightarrow> Some (s, [])
      | Inherited \<Rightarrow>
          Some (s, [(clientId c, ProfileData None (profilePlayerId = Some (playerId c)))])
      | Own p \<Rightarrow>
          Some (s, [(clientId c, ProfileData (Some p) (profilePlayerId = Some (playerId c)))]))"

definition update_profile :: "conn \<Rightarrow> msg \<Rightarrow> state \<Rightarrow> (state \<times> outbox) option" where
  "update_profile c data s =
     (case msg_name data of
        None \<Rightarrow> Some (s, [])
      | Some n \<Rightarrow>
          if n \<noteq> [] then
            (case players s (playerId c) of
               None \<Rightarrow> None
             | Some me \<Rightarrow>
                 Some (s\<lparr>players := (players s)(playerId c \<mapsto> me\<lparr>player_name := sanitizeName n\<rparr>)\<rparr>, []))
          else Some (s, []))"

definition update_avatar :: "conn \<Rightarrow> msg \<Rightarrow> state \<Rightarrow> (state \<times> outbox) option" where
  "update_avatar c data s =
     (case msg_avatar data of
        None \<Rightarrow> Some (s, [])
      | Some a \<Rightarrow>
          if a \<in> set (avatars s) then
            (case players s (playerId c) of
               None \<Rightarrow> None
             | Some me \<Rightarrow> Some (s\<lparr>players := (players s)(playerId c \<mapsto> me\<lparr>avatar := a\<rparr>)\<rparr>, []))
          else Some (s, []))"

text \<open>The \<open>switch\<close> on \<open>data.type\<close>; no case matches an unknown type.\<close>

definition dispatch :: "conn \<Rightarrow> string \<Rightarrow> msg \<Rightarrow> state \<Rightarrow> (state \<times> outbox) option" where
  "dispatch c stamp data s =
     (if msg_type data = ''update_position'' then update_position c data s
      else if msg_type data = ''chat_message'' then chat_message c data s
      else if msg_type data = ''pickup_item'' then pickup_item c data s
      else if msg_type data = ''add_to_inventory'' then Some (s, [])
      else if msg_type data = ''cancel_collection'' then cancel_collection c data s
      else if msg_type data = ''use_item'' then use_item c data s
      else if msg_type data = ''attack_player'' then attack_player c data s
      else if msg_type data = ''heal_player'' then heal_player c data s
      else if msg_type data = ''drop_item'' then drop_item c stamp data s
      else if msg_type data = ''view_profile'' then view_profile c data s
      else if msg_type data = ''update_profile'' then update_profile c data s
      else if msg_type data = ''update_avatar'' then update_avatar c data s
      else Some (s, []))"

text \<open>\<open>data.playerId || playerId\<close>: an absent or empty \<open>playerId\<close> is falsy.\<close>

definition resolveTarget :: "conn \<Rightarrow> msg \<Rightarrow> string" where
  "resolveTarget c data =
     (case msg_playerId data of
        None \<Rightarrow> playerId c
      | Some t \<Rightarrow> if t \<noteq> [] then t else playerId c)"

text \<open>
  The body of \<open>ws.on("message")\<close> for a parsed message: the authorisation guard, the
  \<open>switch\<close>, then the \<open>world_update\<close> to all open clients. A thrown \<open>TypeError\<close> is caught
  by the surrounding \<open>try\<close>: nothing was assigned or sent, and nothing is broadcast.
\<close>

definition onMessage :: "conn \<Rightarrow> string \<Rightarrow> msg \<Rightarrow> state \<Rightarrow> state \<times> outbox" where
  "onMessage c stamp data s =
     (let targetPlayerId = resolveTarget c data in
      if msg_type data \<noteq> ''view_profile'' \<and> targetPlayerId \<noteq> playerId c
         \<and> \<not> isAuthorizedForPlayer s (clientId c) targetPlayerId
      then (s, [])
      else
        (case dispatch c stamp data s of
           None \<Rightarrow> (s, [])
         | Some (s', out) \<Rightarrow> (s', out @ broadcast s')))"

section \<open>The collection timer\<close>

text \<open>
  The callback given to \<open>setTimeout\<close> by \<open>pickup_item\<close>. It runs outside the handler's
  \<open>try\<close>: reading \<open>players[playerId].gold\<close> or \<open>.inventory\<close> of a player that is gone
  is an uncaught \<open>TypeError\<close>, raised before anything is assigned.
\<close>

definition collectionTimeout :: "timer \<Rightarrow> state \<Rightarrow> jsError + (state \<times> outbox)" where
  "collectionTimeout tm s =
     (let it = timer_item tm; pid = timer_playerId tm in
      case findIndex (\<lambda>i. itemId i = itemId it) (worldItems s) of
        None \<Rightarrow> Inr (s, [])
      | Some currentItemIndex \<Rightarrow>
          if collectorId (worldItems s ! currentItemIndex) = Some pid then
            (case players s pid of
               None \<Rightarrow> Inl TypeError
             | Some p \<Rightarrow>
                (let p' = (if item_type it = ''collectible''
                              \<and> orDefault (stat_value (item_stats it)) 0 \<noteq> 0
                           then p\<lparr>gold := fl (gold p + orDefault (stat_value (item_stats it)) 0)\<rparr>
                           else p\<lparr>inventory := inventory p @ [worldItems s ! currentItemIndex]\<rparr>);
                     s' = s\<lparr>players := (players s)(pid \<mapsto> p'),
                            worldItems := splice1 currentItemIndex (worldItems s)\<rparr>
                 in Inr (s', (timer_clientId tm, CollectionComplete (itemId it) (gold p') (inventory p'))
                             # broadcast s')))
          else Inr (s, []))"

text \<open>The \<open>k\<close>-th pending timer elapses: it leaves the pending list and its callback runs.\<close>

definition fireTimer :: "nat \<Rightarrow> state \<Rightarrow> jsError + (state \<times> outbox)" where
  "fireTimer k s =
     (if k < length (timers s)
      then collectionTimeout (timers s ! k) (s\<lparr>timers := splice1 k (timers s)\<rparr>)
      else Inr (s, []))"

section \<open>Connecting and disconnecting\<close>

text \<open>
  \<open>wss.on("connection")\<close>. The two generated identifiers are the fields of \<open>c\<close>, the
  avatar drawn at random is \<open>av\<close>. The \<open>ws\<close> library has added the socket to
  \<open>wss.clients\<close> before the handler runs; \<open>wsAdd\<close> is that step.
\<close>

definition wsAdd :: "conn \<Rightarrow> state \<Rightarrow> state" where
  "wsAdd c s = s\<lparr>clients := clients s @ [\<lparr>client_id = clientId c, ready_open = True\<rparr>]\<rparr>"

definition newPlayer :: "string \<Rightarrow> string \<Rightarrow> player" where
  "newPlayer pid av =
     \<lparr>player_id = pid, player_name = ''Player-'' @ take 4 pid,
      player_position = Some \<lparr>lat = fl 40.7128, lng = fl (- 74.0060)\<rparr>, avatar = av,
      hp = 100, level = 1, xp = 0, gold = 10, inventory = [], lastMessage = Some []\<rparr>"

definition onConnection :: "conn \<Rightarrow> string \<Rightarrow> (nat \<Rightarrow> string) \<Rightarrow> state \<Rightarrow> state \<times> outbox" where
  "onConnection c av stamp s =
     (let s1 = s\<lparr>clientSessions := (clientSessions s)(clientId c \<mapsto> playerId c),
                 players := (players s)(playerId c \<mapsto> newPlayer (playerId c) av)\<rparr>;
          s2 = createInitialItemsNearPosition (fl 40.7128) (fl (- 74.0060)) stamp s1
      in (s2,
          (clientId c, Init (clientId c) (playerId c) (newPlayer (playerId c) av)
                            (players s2) (worldItems s2) (avatars s2)) #
          map (\<lambda>cl. (client_id cl, PlayerJoined (newPlayer (playerId c) av)))
              (filter (\<lambda>cl. client_id cl \<noteq> clientId c \<and> ready_open cl) (clients s2))))"

text \<open>
  \<open>ws.on("close")\<close>: the session and the player are deleted and \<open>player_left\<close> goes to
  the open clients. The library has removed the closed socket from \<open>wss.clients\<close>
  beforehand; \<open>wsRemove\<close> is that step.
\<close>

definition wsRemove :: "conn \<Rightarrow> state \<Rightarrow> state" where
  "wsRemove c s = s\<lparr>clients := filter (\<lambda>cl. client_id cl \<noteq> clientId c) (clients s)\<rparr>"

definition onClose :: "conn \<Rightarrow> state \<Rightarrow> state \<times> outbox" where
  "onClose c s =
     (let s' = s\<lparr>clientSessions := (clientSessions s)(clientId c := None),
                 players := (players s)(playerId c := None)\<rparr>
      in (s', map (\<lambda>cl. (client_id cl, PlayerLeft (playerId c))) (filter ready_open (clients s'))))"

section \<open>Runs of the server\<close>

text \<open>
  The server is a single actor: connections, messages, closes, collection timers and
  the spawn timer are handled one after the other. A run stops at an uncaught error;
  otherwise it gives the final state and what the last event sent.
\<close>

datatype event =
    Connect conn string "nat \<Rightarrow> string"
  | Message conn string msg
  | Close conn
  | Fire nat
  | Spawn nat string position

fun step :: "event \<Rightarrow> state \<Rightarrow> jsError + (state \<times> outbox)" where
  "step (Connect c av stamp) s = Inr (onConnection c av stamp (wsAdd c s))"
| "step (Message c stamp data) s = Inr (onMessage c stamp data s)"
| "step (Close c) s = Inr (onClose c (wsRemove c s))"
| "step (Fire k) s = fireTimer k s"
| "step (Spawn k stamp pos) s = spawnNewItems k stamp pos s"

fun run :: "event list \<Rightarrow> state \<Rightarrow> jsError + (state \<times> outbox)" where
  "run [] s = Inr (s, [])"
| "run (e # es) s =
     (case step e s of
        Inl err \<Rightarrow> Inl err
      | Inr (s', out) \<Rightarrow> (case es of [] \<Rightarrow> Inr (s', out) | _ # _ \<Rightarrow> run es s'))"

text \<open>The server right after start: no player, no item, no session.\<close>

definition initialState :: "string list \<Rightarrow> state" where
  "initialState avs =
     \<lparr>players = Map.empty, worldItems = [], clientSessions = Map.empty, clients = [],
      avatars = avs, timers = []\<rparr>"

text \<open>An empty message of a given type, and two connections used in the examples.\<close>

definition message :: "string \<Rightarrow> msg" where
  "message ty =
     \<lparr>msg_type = ty, msg_playerId = None, msg_position = None, msg_message = None,
      msg_itemId = None, msg_targetPlayerId = None, msg_weaponId = None, msg_damage = None,
      msg_healAmount = None, msg_profilePlayerId = None, msg_name = None, msg_avatar = None\<rparr>"

definition alice :: conn where
  "alice = \<lparr>clientId = ''c-alice'', playerId = ''p-alice''\<rparr>"

definition bob :: conn where
  "bob = \<lparr>clientId = ''c-bob'', playerId = ''p-bob''\<rparr>"

definition stamps :: "nat \<Rightarrow> string" where
  "stamps k = ''1700000000000-7''"

section \<open>Notions used to state the properties\<close>

text \<open>
  The guard of the timer callback, as a predicate: the first world item with this
  \<open>itemId\<close> exists and its \<open>collectorId\<close> is this player.
\<close>

definition claimHeldBy :: "state \<Rightarrow> string \<Rightarrow> string \<Rightarrow> bool" where
  "claimHeldBy s iid pid =
     (case findIndex (\<lambda>i. itemId i = iid) (worldItems s) of
        None \<Rightarrow> False
      | Some k \<Rightarrow> collectorId (worldItems s ! k) = Some pid)"

definition isWorldUpdate :: "outMsg \<Rightarrow> bool" where
  "isWorldUpdate m = (case m of WorldUpdate _ _ \<Rightarrow> True | _ \<Rightarrow> False)"

text \<open>
  The display name as the specification words it: what is left of the input after
  removing every character that is not alphanumeric, a space or a hyphen, cut to 20
  characters. It is compared below with \<open>sanitizeName\<close>, which follows the source.
\<close>

definition isAlphanumeric :: "char \<Rightarrow> bool" where
  "isAlphanumeric c =
     (let n = (of_char c :: nat)
      in (48 \<le> n \<and> n \<le> 57) \<or> (65 \<le> n \<and> n \<le> 90) \<or> (97 \<le> n \<and> n \<le> 122))"

definition spec_sanitizeName :: "string \<Rightarrow> string" where
  "spec_sanitizeName n =
     take 20 (filter (\<lambda>c. isAlphanumeric c \<or> c = CHR '' '' \<or> c = CHR ''-'') n)"

section \<open>Example inputs\<close>

definition potionId :: string where
  "potionId = ''health-potion-1700000000000-7''"

definition swordId :: string where
  "swordId = ''iron-sword-1700000000000-7''"

definition armorId :: string where
  "armorId = ''leather-armor-1700000000000-7''"

definition droppedId :: string where
  "droppedId = ''leather-armor-1700000099999-3''"

definition pickup :: "string \<Rightarrow> msg" where
  "pickup iid = (message ''pickup_item'')\<lparr>msg_itemId := Some iid\<rparr>"

definition cancel :: "string \<Rightarrow> msg" where
  "cancel iid = (message ''cancel_collection'')\<lparr>msg_itemId := Some iid\<rparr>"

definition dropIt :: "string \<Rightarrow> msg" where
  "dropIt iid = (message ''drop_item'')\<lparr>msg_itemId := Some iid\<rparr>"

definition moveTo :: "real \<Rightarrow> real \<Rightarrow> msg" where
  "moveTo la lo = (message ''update_position'')\<lparr>msg_position := Some \<lparr>lat = la, lng = lo\<rparr>\<rparr>"

definition attack :: "string \<Rightarrow> string \<Rightarrow> real option \<Rightarrow> msg" where
  "attack tid wid d =
     (message ''attack_player'')\<lparr>msg_targetPlayerId := Some tid, msg_weaponId := Some wid,
                                  msg_damage := d\<rparr>"

definition healMsg :: "string \<Rightarrow> string \<Rightarrow> msg" where
  "healMsg tid iid =
     (message ''heal_player'')\<lparr>msg_targetPlayerId := Some tid, msg_itemId := Some iid\<rparr>"

definition collected :: "item \<Rightarrow> string \<Rightarrow> item" where
  "collected it pid = it\<lparr>beingCollected := True, collectorId := Some pid\<rparr>"

definition sword :: item where
  "sword =
     \<lparr>templateId = ''iron-sword'', item_name = ''Iron Sword'', item_type = ''weapon'',
      item_stats = \<lparr>stat_attack = Some 5, stat_defense = None, stat_heal = None, stat_value = None\<rparr>,
      itemId = swordId,
      item_position = Some \<lparr>lat = fl (fl 40.7128 + fl 0.0002), lng = fl (fl (- 74.0060) - fl 0.0001)\<rparr>,
      collectionTime = 5000, beingCollected = False, collectorId = None\<rparr>"

definition potion :: item where
  "potion =
     \<lparr>templateId = ''health-potion'', item_name = ''Health Potion'', item_type = ''consumable'',
      item_stats = \<lparr>stat_attack = None, stat_defense = None, stat_heal = Some 20, stat_value = None\<rparr>,
      itemId = potionId,
      item_position = Some \<lparr>lat = fl 40.7128, lng = fl (fl (- 74.0060) + fl 0.0002)\<rparr>,
      collectionTime = 2000, beingCollected = False, collectorId = None\<rparr>"

definition coin :: item where
  "coin =
     \<lparr>templateId = ''gold-coin'', item_name = ''Gold Coin'', item_type = ''collectible'',
      item_stats = \<lparr>stat_attack = None, stat_defense = None, stat_heal = None, stat_value = Some 1\<rparr>,
      itemId = ''gold-coin-1700000000000-7'',
      item_position = Some \<lparr>lat = fl (fl 40.7128 - fl 0.0001), lng = fl (fl (- 74.0060) + fl 0.0001)\<rparr>,
      collectionTime = 1000, beingCollected = False, collectorId = None\<rparr>"

definition droppedArmor :: item where
  "droppedArmor =
     \<lparr>templateId = ''leather-armor'', item_name = ''Leather Armor'', item_type = ''armor'',
      item_stats = \<lparr>stat_attack = None, stat_defense = Some 3, stat_heal = None, stat_value = None\<rparr>,
      itemId = droppedId, item_position = Some \<lparr>lat = 0, lng = fl 0.001\<rparr>,
      collectionTime = 1000, beingCollected = False, collectorId = None\<rparr>"

definition armorTimer :: timer where
  "armorTimer =
     \<lparr>timer_item = collected droppedArmor ''p-alice'', timer_playerId = ''p-alice'',
      timer_clientId = ''c-alice'', timer_delay = 1000\<rparr>"

definition duelAlice :: player where
  "duelAlice =
     (newPlayer ''p-alice'' ''av'')
       \<lparr>player_position := Some \<lparr>lat = 0, lng = 0\<rparr>,
         inventory := [collected sword ''p-alice'', collected potion ''p-alice'']\<rparr>"

definition duelBob :: player where
  "duelBob = (newPlayer ''p-bob'' ''av'')\<lparr>player_position := Some \<lparr>lat = 0, lng = fl 0.0002\<rparr>\<rparr>"

text \<open>
  Alice has collected the sword and the potion, has dropped the armor at \<open>(0, 0.001)\<close>,
  has claimed it again there and has walked to \<open>(0, 0)\<close>; Bob stands at \<open>(0, 0.0002)\<close>
  (the doubles these literals denote).
  \<open>duel_reachable\<close> below gives the run that leads here.
\<close>

definition duel :: state where
  "duel =
     \<lparr>players = [''p-alice'' \<mapsto> duelAlice, ''p-bob'' \<mapsto> duelBob],
      worldItems = [coin, collected droppedArmor ''p-alice''],
      clientSessions = [''c-alice'' \<mapsto> ''p-alice'', ''c-bob'' \<mapsto> ''p-bob''],
      clients = [\<lparr>client_id = ''c-alice'', ready_open = True\<rparr>,
                 \<lparr>client_id = ''c-bob'', ready_open = True\<rparr>],
      avatars = [''av''],
      timers = [armorTimer]\<rparr>"

definition viewProfile :: "string \<Rightarrow> msg" where
  "viewProfile pid = (message ''view_profile'')\<lparr>msg_profilePlayerId := Some pid\<rparr>"

section \<open>Facts about the helpers\<close>

lemma findIndex_Some:
  "findIndex P xs = Some k \<Longrightarrow> k < length xs \<and> P (xs ! k)"
proof (induction xs arbitrary: k)
  case Nil
  then show ?case by simp
next
  case (Cons x xs)
  then show ?case by (cases "P x") auto
qed

lemma findIndex_first:
  "findIndex P xs = Some k \<Longrightarrow> j < k \<Longrightarrow> \<not> P (xs ! j)"
proof (induction xs arbitrary: k j)
  case Nil
  then show ?case by simp
next
  case (Cons x xs)
  show ?case
  proof (cases "P x")
    case True
    with Cons.prems show ?thesis by simp
  next
    case False
    with Cons.prems obtain k' where k': "findIndex P xs = Some k'" "k = Suc k'" by auto
    show ?thesis
    proof (cases j)
      case 0
      with False show ?thesis by simp
    next
      case (Suc j')
      with Cons.prems k' have "j' < k'" by simp
      with Cons.IH k' Suc show ?thesis by simp
    qed
  qed
qed

lemma findIndex_None:
  "(findIndex P xs = None) = (list_all (\<lambda>x. \<not> P x) xs)"
  by (induction xs) auto

lemma findIndex_least:
  "k < length xs \<Longrightarrow> P (xs ! k) \<Longrightarrow> \<exists>j. findIndex P xs = Some j \<and> j \<le> k"
proof (induction xs arbitrary: k)
  case Nil
  then show ?case by simp
next
  case (Cons x xs)
  show ?case
  proof (cases "P x")
    case True
    then show ?thesis by simp
  next
    case False
    with Cons.prems obtain k' where "k = Suc k'" by (cases k) auto
    with Cons.prems Cons.IH [of k'] False show ?thesis by auto
  qed
qed

subsection \<open>Evaluating the rounding\<close>

lemma ilog2_bracket:
  assumes lo: "2 powi k \<le> x" and hi: "x < 2 powi (k + 1)"
  shows "ilog2 x = k"
proof -
  have pos: "0 < x" using lo zero_less_power_int [of "2::real" k] by linarith
  have "2 powr real_of_int k = 2 powi k" "2 powr (real_of_int k + 1) = 2 powi (k + 1)"
    using powr_real_of_int' [of "2::real" k] powr_real_of_int' [of "2::real" "k + 1"] by simp_all
  with lo hi pos show ?thesis
    unfolding ilog2_def by (subst floor_log_eq_powr_iff) simp_all
qed

lemma ilog2_ge1:
  assumes "1 \<le> x"
  shows "ilog2 x = bitlen \<lfloor>x\<rfloor> - 1"
proof (rule ilog2_bracket)
  let ?n = "\<lfloor>x\<rfloor>"
  let ?b = "bitlen ?n"
  from assms have n: "0 < ?n" by simp
  then have b: "1 \<le> ?b" by (simp add: bitlen_alt_def)
  from bitlen_bounds [OF n]
  have lo: "2 ^ nat (?b - 1) \<le> ?n" and hi: "?n < 2 ^ nat ?b" by auto
  have "(2::real) powi (?b - 1) = 2 ^ nat (?b - 1)" using b by (simp add: power_int_def)
  also have "\<dots> = real_of_int (2 ^ nat (?b - 1))" by simp
  also have "\<dots> \<le> real_of_int ?n" using lo by (simp only: of_int_le_iff)
  also have "\<dots> \<le> x" by simp
  finally show "2 powi (?b - 1) \<le> x" .
  have "?n + 1 \<le> 2 ^ nat ?b" using hi by simp
  then have "real_of_int (?n + 1) \<le> real_of_int (2 ^ nat ?b)" by (simp only: of_int_le_iff)
  then have c: "real_of_int ?n + 1 \<le> 2 ^ nat ?b" by simp
  have a: "x < real_of_int ?n + 1" by linarith
  have "(2::real) powi (?b - 1 + 1) = 2 ^ nat ?b" using b by (simp add: power_int_def)
  with a c show "x < 2 powi (?b - 1 + 1)" by linarith
qed

lemma ilog2_lt1:
  assumes "0 < x" and "x < 1"
  shows "ilog2 x = - bitlen (\<lceil>1 / x\<rceil> - 1)"
proof (rule ilog2_bracket)
  let ?m = "\<lceil>1 / x\<rceil> - 1"
  let ?b = "bitlen ?m"
  from assms have "1 < 1 / x" by simp
  then have "1 < \<lceil>1 / x\<rceil>" by (simp add: less_ceiling_iff)
  then have m: "0 < ?m" by simp
  then have b: "1 \<le> ?b" by (simp add: bitlen_alt_def)
  from bitlen_bounds [OF m]
  have lo: "2 ^ nat (?b - 1) \<le> ?m" and hi: "?m < 2 ^ nat ?b" by auto
  have mlt: "real_of_int ?m < 1 / x" by linarith
  have mge: "1 / x \<le> real_of_int (?m + 1)" by (simp add: le_of_int_ceiling)
  have p1: "(2::real) powi (- ?b) = 1 / 2 ^ nat ?b"
    using b by (simp add: power_int_def inverse_eq_divide power_one_over)
  have p2: "(2::real) powi (- ?b + 1) = 1 / 2 ^ nat (?b - 1)"
    using b by (cases "?b = 1") (simp_all add: power_int_def inverse_eq_divide power_one_over)
  have "?m + 1 \<le> 2 ^ nat ?b" using hi by simp
  then have "real_of_int (?m + 1) \<le> real_of_int (2 ^ nat ?b)" by (simp only: of_int_le_iff)
  moreover have "real_of_int (2 ^ nat ?b) = 2 ^ nat ?b" by simp
  ultimately have "1 / x \<le> 2 ^ nat ?b" using mge by linarith
  with assms have "1 \<le> 2 ^ nat ?b * x" by (simp add: field_simps)
  then have "1 / 2 ^ nat ?b \<le> x" by (simp add: field_simps)
  with p1 show "2 powi (- ?b) \<le> x" by simp
  have "real_of_int (2 ^ nat (?b - 1)) \<le> real_of_int ?m" using lo by (simp only: of_int_le_iff)
  moreover have "real_of_int (2 ^ nat (?b - 1)) = 2 ^ nat (?b - 1)" by simp
  ultimately have "2 ^ nat (?b - 1) < 1 / x" using mlt by linarith
  with assms have "2 ^ nat (?b - 1) * x < 1" by (simp add: field_simps)
  then have "x < 1 / 2 ^ nat (?b - 1)" by (simp add: field_simps)
  with p2 show "x < 2 powi (- ?b + 1)" by simp
qed

lemma ilog2_eval:
  "0 < x \<Longrightarrow> ilog2 x = (if 1 \<le> x then bitlen \<lfloor>x\<rfloor> - 1 else - bitlen (\<lceil>1 / x\<rceil> - 1))"
  by (simp add: ilog2_ge1 ilog2_lt1)

lemmas fl_eval = fl_def ilog2_eval compute_bitlen roundHalfEven_def Math_pow2_def Let_def

text \<open>The doubles that the literals of the source denote.\<close>

lemma literal_doubles:
  "fl 0.001 = 1152921504606847 / 2 ^ 60"
  "fl 0.0002 = 7378697629483821 / 2 ^ 65"
  "fl 0.0001 = 7378697629483821 / 2 ^ 66"
  "fl 40.7128 = 2864908607956399 / 2 ^ 46"
  "fl (- 74.0060) = - (2603854640806101 / 2 ^ 45)"
  by (simp_all add: fl_eval)

lemma fl_minus: "fl (- x) = - fl x"
  by (simp add: fl_def Let_def sgn_minus)

lemma roundHalfEven_near:
  assumes "real_of_int m - 1 / 2 < y" and "y < real_of_int m + 1 / 2"
  shows "roundHalfEven y = m"
proof (cases "real_of_int m \<le> y")
  case True
  with assms have "\<lfloor>y\<rfloor> = m" by (simp add: floor_unique)
  with assms show ?thesis by (simp add: roundHalfEven_def Let_def)
next
  case False
  with assms have "\<lfloor>y\<rfloor> = m - 1" by (simp add: floor_unique)
  with assms False show ?thesis by (simp add: roundHalfEven_def Let_def)
qed

lemma fl_near:
  assumes m: "2 ^ 52 < m" "m < 2 ^ 53"
    and e: "- 1074 \<le> e"
    and lo: "(real_of_int m - 1 / 2) * 2 powi e < y"
    and hi: "y < (real_of_int m + 1 / 2) * 2 powi e"
  shows "fl y = real_of_int m * 2 powi e"
proof -
  let ?P = "(2::real) powi e"
  have P: "0 < ?P" by simp
  have m1: "(2::real) ^ 52 \<le> real_of_int m - 1 / 2"
  proof -
    from m(1) have "2 ^ 52 + 1 \<le> m" by simp
    then have "real_of_int (2 ^ 52 + 1) \<le> real_of_int m" by (simp only: of_int_le_iff)
    then show ?thesis by simp
  qed
  have m2: "real_of_int m + 1 / 2 \<le> (2::real) ^ 53"
  proof -
    from m(2) have "m + 1 \<le> 2 ^ 53" by simp
    then have "real_of_int (m + 1) \<le> real_of_int (2 ^ 53)" by (simp only: of_int_le_iff)
    then show ?thesis by simp
  qed
  have "(2::real) ^ 52 * ?P \<le> (real_of_int m - 1 / 2) * ?P"
    using m1 P by (simp only: mult_le_cancel_right_pos)
  with lo have l: "(2::real) ^ 52 * ?P < y" by linarith
  have "(real_of_int m + 1 / 2) * ?P \<le> (2::real) ^ 53 * ?P"
    using m2 P by (simp only: mult_le_cancel_right_pos)
  with hi have h: "y < (2::real) ^ 53 * ?P" by linarith
  have pos: "0 < y" using l P by (smt (verit) mult_pos_pos zero_less_power)
  have p52: "(2::real) powi (52 + e) = 2 ^ 52 * ?P"
    by (simp add: power_int_add)
  have p53: "(2::real) powi (52 + e + 1) = 2 ^ 53 * ?P"
    by (simp add: power_int_add)
  have k: "ilog2 y = 52 + e"
    by (rule ilog2_bracket) (use l h p52 p53 in linarith)+
  have q1: "real_of_int m - 1 / 2 < y / ?P" using lo P by (simp add: pos_less_divide_eq)
  have q2: "y / ?P < real_of_int m + 1 / 2" using hi P by (simp add: pos_divide_less_eq)
  have r: "roundHalfEven (y / ?P) = m" by (rule roundHalfEven_near [OF q1 q2])
  from pos k e r show ?thesis by (simp add: fl_def Let_def max_def)
qed

lemma Math_sqrt_near:
  assumes m: "2 ^ 52 < m" "m < 2 ^ 53"
    and e: "- 1074 \<le> e"
    and lo: "((real_of_int m - 1 / 2) * 2 powi e)\<^sup>2 < q"
    and hi: "q < ((real_of_int m + 1 / 2) * 2 powi e)\<^sup>2"
  shows "Math_sqrt q = real_of_int m * 2 powi e"
proof -
  have m0: "0 \<le> real_of_int m - 1 / 2"
  proof -
    from m(1) have "1 \<le> m" by simp
    then have "real_of_int 1 \<le> real_of_int m" by (simp only: of_int_le_iff)
    then show ?thesis by simp
  qed
  then have a: "0 \<le> (real_of_int m - 1 / 2) * 2 powi e" by simp
  from m0 have b: "0 \<le> (real_of_int m + 1 / 2) * 2 powi e" by simp
  from lo have "sqrt (((real_of_int m - 1 / 2) * 2 powi e)\<^sup>2) < sqrt q"
    by (simp only: real_sqrt_less_iff)
  with a have l: "(real_of_int m - 1 / 2) * 2 powi e < sqrt q" by simp
  from hi have "sqrt q < sqrt (((real_of_int m + 1 / 2) * 2 powi e)\<^sup>2)"
    by (simp only: real_sqrt_less_iff)
  with b have h: "sqrt q < (real_of_int m + 1 / 2) * 2 powi e" by simp
  show ?thesis unfolding Math_sqrt_def by (rule fl_near [OF m e l h])
qed

lemma Math_sqrt_zero: "Math_sqrt 0 = 0"
  by (simp add: Math_sqrt_def fl_def)

text \<open>Small integers are doubles.\<close>

lemma roundHalfEven_of_int: "roundHalfEven (real_of_int j) = j"
  by (simp add: roundHalfEven_def)

lemma fl_of_int_pos:
  assumes "0 < n" and "n < 2 ^ 53"
  shows "fl (real_of_int n) = real_of_int n"
proof -
  let ?x = "real_of_int n"
  let ?k = "ilog2 ?x"
  have x1: "1 \<le> ?x" using assms(1) by simp
  have "real_of_int n < real_of_int (2 ^ 53)" using assms(2) by (simp only: of_int_less_iff)
  then have x2: "?x < 2 ^ 53" by simp
  have "0 \<le> log 2 ?x" using x1 by simp
  then have k0: "0 \<le> ?k" by (simp add: ilog2_def)
  have l53: "log 2 ((2::real) ^ 53) = 53" by (subst log_pow_cancel) simp_all
  have "log 2 ?x < log 2 ((2::real) ^ 53)" using x1 x2 by (subst log_less_cancel_iff) simp_all
  then have "log 2 ?x < 53" by (simp only: l53)
  then have k52: "?k \<le> 52" by (simp add: ilog2_def floor_le_iff)
  define d where "d = nat (52 - ?k)"
  have e: "max (?k - 52) (- 1074) = - int d" using k0 k52 by (simp add: d_def)
  have p: "(2::real) powi (- int d) = 1 / 2 ^ d"
    by (simp add: power_int_minus inverse_eq_divide)
  have q: "\<bar>?x\<bar> / 2 powi (- int d) = real_of_int (n * 2 ^ d)"
    using assms(1) by (simp add: p)
  have r: "roundHalfEven (\<bar>?x\<bar> / 2 powi (- int d)) = n * 2 ^ d"
    by (simp only: q roundHalfEven_of_int)
  have nz: "?x \<noteq> 0" using x1 by simp
  have ax: "\<bar>?x\<bar> = ?x" using x1 by simp
  have e': "max (ilog2 \<bar>?x\<bar> - 52) (- 1074) = - int d" by (simp only: ax e)
  have "fl ?x = sgn ?x * real_of_int (roundHalfEven (\<bar>?x\<bar> / 2 powi (- int d)))
                  * 2 powi (- int d)"
    unfolding fl_def Let_def e' using nz by (simp only: if_False)
  also have "\<dots> = sgn ?x * real_of_int (n * 2 ^ d) * 2 powi (- int d)" by (simp only: r)
  also have "\<dots> = ?x" using x1 by (simp add: p)
  finally show ?thesis .
qed

lemma fl_numeral: "numeral k < (2::real) ^ 53 \<Longrightarrow> fl (numeral k) = numeral k"
proof -
  assume a: "numeral k < (2::real) ^ 53"
  have "real_of_int (numeral k) < real_of_int (2 ^ 53)" using a by simp
  then have "(numeral k :: int) < 2 ^ 53" by (simp only: of_int_less_iff)
  from fl_of_int_pos [OF _ this] show ?thesis by simp
qed

lemma fl_zero: "fl 0 = 0" by (simp add: fl_def)
lemma fl_one: "fl 1 = 1" using fl_of_int_pos [of 1] by simp

text \<open>The roundings that the examples meet.\<close>

lemma fl_values_1:
  "fl (12379400393675709681 / 1237940039285380274899124224) = 1511157274618617 / 151115727451828646838272"
  "fl (792281625138950424241 / 19807040628566084398385987584) = 6044629098044971 / 151115727451828646838272"
  "fl (3022314549036573 / 75557863725914323419136) = 3022314549036573 / 75557863725914323419136"
  "fl (54445178707350159372354900760041 / 1361129467683753853853498429727072845824) = 3022314549036573 / 75557863725914323419136"
  "fl (12379400393675709681 / 309485009821345068724781056) = 1511157274618617 / 37778931862957161709568"
  "fl (1511157274618617 / 37778931862957161709568) = 1511157274618617 / 37778931862957161709568"
  "fl (1888946593165897 / 37778931862957161709568) = 1888946593165897 / 37778931862957161709568"
  "fl (7555786373093085 / 151115727451828646838272) = 7555786373093085 / 151115727451828646838272"
  by (simp_all add: fl_eval)

lemma fl_values_2:
  "fl (3022314549036573 / 4722366482869645213696) = 3022314549036573 / 4722366482869645213696"
  "fl (54445178707350159372354900760041 / 85070591730234615865843651857942052864) = 3022314549036573 / 4722366482869645213696"
  "fl (4722366482868605 / 4722366482869645213696) = 4722366482868605 / 4722366482869645213696"
  "fl (5070602400911800713279225 / 5070602400912917605986812821504) = 4722366482868605 / 4722366482869645213696"
  "fl (4722366482869645 / 4722366482869645213696) = 4722366482869645 / 4722366482869645213696"
  "fl (1329227995784915928244039281409 / 1329227995784915872903807060280344576) = 4722366482869645 / 4722366482869645213696"
  "fl (1 / 10000) = 7378697629483821 / 73786976294838206464"
  "fl (7378697629483821 / 73786976294838206464) = 7378697629483821 / 73786976294838206464"
  by (simp_all add: fl_eval)

lemma fl_values_3:
  "fl (3518437209 / 35184372088832) = 3518437209 / 35184372088832"
  "fl (28147497671 / 140737488355328) = 28147497671 / 140737488355328"
  "fl (1 / 5000) = 7378697629483821 / 36893488147419103232"
  "fl (7378697629483821 / 36893488147419103232) = 7378697629483821 / 36893488147419103232"
  "fl (3518437209 / 17592186044416) = 3518437209 / 17592186044416"
  "fl (29514790517935283 / 36893488147419103232) = 7378697629483821 / 9223372036854775808"
  "fl (2251799813685 / 2251799813685248) = 2251799813685 / 2251799813685248"
  "fl (1 / 1000) = 1152921504606847 / 1152921504606846976"
  by (simp_all add: fl_eval)

lemma fl_values_4:
  "fl (1152921504606847 / 1152921504606846976) = 1152921504606847 / 1152921504606846976"
  "fl (1001 / 1000) = 2254051613498933 / 2251799813685248"
  "fl (2864901571081981 / 70368744177664) = 2864901571081981 / 70368744177664"
  "fl (3004067029798859554003 / 73786976294838206464) = 2864901571081981 / 70368744177664"
  "fl (50891 / 1250) = 2864908607956399 / 70368744177664"
  "fl (2864908607956399 / 70368744177664) = 2864908607956399 / 70368744177664"
  "fl (3004081787194118521645 / 73786976294838206464) = 2864915644830817 / 70368744177664"
  "fl (2864915644830817 / 70368744177664) = 2864915644830817 / 70368744177664"
  by (simp_all add: fl_eval)

lemma fl_values_5:
  "fl (5729845363410469 / 140737488355328) = 5729845363410469 / 140737488355328"
  "fl (1502044582945874002733 / 36893488147419103232) = 5729845363410469 / 140737488355328"
  "fl (2603847603931683 / 35184372088832) = 2603847603931683 / 35184372088832"
  "fl (370029 / 5000) = 2603847603931683 / 35184372088832"
  "fl (2730332105140268678355 / 36893488147419103232) = 2603847603931683 / 35184372088832"
  "fl (650962780592223 / 8796093022208) = 650962780592223 / 8796093022208"
  "fl (5460671588978166840531 / 73786976294838206464) = 650962780592223 / 8796093022208"
  "fl (37003 / 500) = 2603854640806101 / 35184372088832"
  by (simp_all add: fl_eval)

lemma fl_values_6:
  "fl (2603854640806101 / 35184372088832) = 2603854640806101 / 35184372088832"
  "fl (5460686346373425808173 / 73786976294838206464) = 1301929079621655 / 17592186044416"
  "fl (1301929079621655 / 17592186044416) = 1301929079621655 / 17592186044416"
  "fl (2730346862535527645997 / 36893488147419103232) = 2603861677680519 / 35184372088832"
  "fl (2603861677680519 / 35184372088832) = 2603861677680519 / 35184372088832"
  by (simp_all add: fl_eval)

lemmas fl_values = fl_values_1 fl_values_2 fl_values_3 fl_values_4 fl_values_5 fl_values_6

text \<open>
  The square roots that the examples need, each placed with \<open>Math_sqrt_near\<close>: the
  argument lies strictly between the squares of the two midpoints around the result.
\<close>

lemma Math_sqrt_potion_spawn:
  "Math_sqrt (1511157274618617 / 37778931862957161709568) = 3518437209 / 17592186044416"
  using Math_sqrt_near [of 7378697629728768 "- 65" "1511157274618617 / 37778931862957161709568"]
  by (simp add: power_divide)

lemma Math_sqrt_sword_spawn:
  "Math_sqrt (1888946593165897 / 37778931862957161709568) = 8249634742510581 / 36893488147419103232"
  using Math_sqrt_near [of 8249634742510581 "- 65" "1888946593165897 / 37778931862957161709568"]
  by (simp add: power_divide)

lemma Math_sqrt_armor_spawn:
  "Math_sqrt (7555786373093085 / 151115727451828646838272) = 8249634742745049 / 36893488147419103232"
  using Math_sqrt_near [of 8249634742745049 "- 65" "7555786373093085 / 151115727451828646838272"]
  by (simp add: power_divide)

lemma Math_sqrt_pickup_threshold:
  "Math_sqrt (4722366482869645 / 4722366482869645213696) = 1152921504606847 / 1152921504606846976"
  using Math_sqrt_near [of 4611686018427388 "- 62" "4722366482869645 / 4722366482869645213696"]
  by (simp add: power_divide)

lemma Math_sqrt_action_threshold:
  "Math_sqrt (3022314549036573 / 75557863725914323419136) = 7378697629483821 / 36893488147419103232"
  using Math_sqrt_near [of 7378697629483821 "- 65" "3022314549036573 / 75557863725914323419136"]
  by (simp add: power_divide)

lemma Math_sqrt_bob_armor:
  "Math_sqrt (3022314549036573 / 4722366482869645213696) = 7378697629483821 / 9223372036854775808"
  using Math_sqrt_near [of 7378697629483821 "- 63" "3022314549036573 / 4722366482869645213696"]
  by (simp add: power_divide)

lemma Math_sqrt_near_action_threshold:
  "Math_sqrt (1511157274618617 / 37778931862957161709568) = 3518437209 / 17592186044416"
  using Math_sqrt_near [of 7378697629728768 "- 65" "1511157274618617 / 37778931862957161709568"]
  by (simp add: power_divide)

lemma Math_sqrt_near_pickup_threshold:
  "Math_sqrt (4722366482868605 / 4722366482869645213696) = 2251799813685 / 2251799813685248"
  using Math_sqrt_near [of 4611686018426880 "- 62" "4722366482868605 / 4722366482869645213696"]
  by (simp add: power_divide)

lemmas Math_sqrt_evals = Math_sqrt_zero Math_sqrt_potion_spawn Math_sqrt_sword_spawn Math_sqrt_armor_spawn Math_sqrt_pickup_threshold Math_sqrt_action_threshold Math_sqrt_bob_armor Math_sqrt_near_action_threshold Math_sqrt_near_pickup_threshold

lemma distance_sym: "distance a b = distance b a"
proof -
  have "fl (lat a - lat b) = - fl (lat b - lat a)" "fl (lng a - lng b) = - fl (lng b - lng a)"
    using fl_minus [of "lat b - lat a"] fl_minus [of "lng b - lng a"] by simp_all
  then show ?thesis by (simp add: distance_def Math_pow2_def)
qed

lemmas model_defs =
  onMessage_def dispatch_def resolveTarget_def isAuthorizedForPlayer_def broadcast_def
  update_position_def chat_message_def pickup_item_def cancel_collection_def use_item_def
  attack_player_def heal_player_def drop_item_def view_profile_def update_profile_def
  update_avatar_def lookupPlayer_def targetClient_def orDefault_def splice1_def
  collectionTimeout_def fireTimer_def spawnNewItems_def onConnection_def onClose_def wsAdd_def wsRemove_def
  newPlayer_def createInitialItemsNearPosition_def createItemFromTemplate_def
  ITEM_TEMPLATES_def noStats_def initialState_def message_def alice_def bob_def stamps_def
  List.map_filter_def pickupInRange_def actionInRange_def distance_def keyOf_def
  inheritedKeys_def Math_pow2_def fl_values fl_numeral fl_zero fl_one fl_minus
  Math_sqrt_evals Let_def

lemmas example_defs =
  potionId_def swordId_def armorId_def droppedId_def pickup_def cancel_def dropIt_def
  moveTo_def attack_def healMsg_def collected_def sword_def potion_def coin_def
  droppedArmor_def armorTimer_def duelAlice_def duelBob_def duel_def viewProfile_def

text \<open>
  Two positions next to the thresholds: a target 0.0002 east of the spawn point by the
  literals is out of reach of an attack, its computed distance being
  0.0002000000000066393; an item at \<open>(1, 1.001)\<close> is within reach of a player at
  \<open>(1, 1)\<close>, its computed distance being 0.0009999999999998899.
\<close>

lemma near_threshold_examples:
  "\<not> actionInRange \<lparr>lat = fl 40.7128, lng = fl (- 74.0058)\<rparr>
                     \<lparr>lat = fl 40.7128, lng = fl (- 74.0060)\<rparr>"
  "pickupInRange \<lparr>lat = 1, lng = fl 1.001\<rparr> \<lparr>lat = 1, lng = 1\<rparr>"
  by (simp_all add: actionInRange_def pickupInRange_def distance_def Math_pow2_def fl_values
        fl_numeral fl_zero fl_one fl_minus Math_sqrt_evals)

section \<open>The example state is reachable\<close>

lemma duel_reachable:
  "map_sum id fst (run
      [Connect alice ''av'' stamps,
       Message alice [] (pickup swordId), Fire 0,
       Message alice [] (pickup potionId), Fire 0,
       Message alice [] (pickup armorId), Fire 0,
       Message alice [] (moveTo 0 (fl 0.001)),
       Message alice ''1700000099999-3'' (dropIt armorId),
       Message alice [] (pickup droppedId),
       Message alice [] (moveTo 0 0),
       Connect bob ''av'' stamps,
       Message bob [] (moveTo 0 (fl 0.0002))]
      (initialState [''av''])) = Inr duel"
  by (simp add: model_defs example_defs)

section \<open>Dispatch on the message type\<close>

lemma dispatch_pickup_item:
  "msg_type data = ''pickup_item'' \<Longrightarrow> dispatch c stamp data s = pickup_item c data s"
  by (simp add: dispatch_def)

lemma dispatch_view_profile:
  "msg_type data = ''view_profile'' \<Longrightarrow> dispatch c stamp data s = view_profile c data s"
  by (simp add: dispatch_def)

lemma dispatch_update_profile:
  "msg_type data = ''update_profile'' \<Longrightarrow> dispatch c stamp data s = update_profile c data s"
  by (simp add: dispatch_def)

lemma onMessage_cases:
  "onMessage c stamp data s = (s, [])
   \<or> (\<exists>s' out. dispatch c stamp data s = Some (s', out)
         \<and> onMessage c stamp data s = (s', out @ broadcast s'))"
  by (cases "dispatch c stamp data s") (auto simp: onMessage_def Let_def)

lemma onMessage_view_profile:
  "msg_type data = ''view_profile'' \<Longrightarrow>
     onMessage c stamp data s =
       (s, (case lookupPlayer s (msg_profilePlayerId data) of
              Missing \<Rightarrow> []
            | Inherited \<Rightarrow>
                [(clientId c, ProfileData None (msg_profilePlayerId data = Some (playerId c)))]
            | Own p \<Rightarrow>
                [(clientId c, ProfileData (Some p) (msg_profilePlayerId data = Some (playerId c)))])
           @ broadcast s)"
  by (auto simp: onMessage_def Let_def dispatch_view_profile view_profile_def
        split: property.splits)

section \<open>Claims survive what does not touch them\<close>

lemma findIndex_list_update:
  "k < length xs \<Longrightarrow> P y = P (xs ! k) \<Longrightarrow> findIndex P (xs[k := y]) = findIndex P xs"
proof (induction xs arbitrary: k)
  case Nil
  then show ?case by simp
next
  case (Cons x xs)
  then show ?case by (cases k) auto
qed

lemma timeout_without_claim:
  "\<not> claimHeldBy s (itemId (timer_item tm)) (timer_playerId tm) \<Longrightarrow>
     collectionTimeout tm s = Inr (s, [])"
  by (auto simp: collectionTimeout_def claimHeldBy_def Let_def split: option.splits)

lemma cancel_releases_claim:
  assumes run: "cancel_collection c data s = Some (s', out)"
    and sent: "out \<noteq> []"
    and iid: "msg_itemId data = Some iid"
  shows "\<not> claimHeldBy s' iid (playerId c)"
proof -
  let ?P = "\<lambda>i. Some (itemId i) = msg_itemId data \<and> collectorId i = Some (playerId c)"
  let ?Q = "\<lambda>i. itemId i = iid"
  let ?ws = "worldItems s"
  from run sent obtain k where k: "findIndex ?P ?ws = Some k"
    and s': "worldItems s' = ?ws[k := (?ws ! k)\<lparr>beingCollected := False, collectorId := None\<rparr>]"
    by (auto simp: cancel_collection_def split: option.splits)
  from findIndex_Some [OF k] have kl: "k < length ?ws" and pk: "?P (?ws ! k)" by auto
  from pk iid have qk: "?Q (?ws ! k)" by simp
  have same: "findIndex ?Q (worldItems s') = findIndex ?Q ?ws"
    unfolding s' by (rule findIndex_list_update [OF kl]) simp
  from findIndex_least [OF kl, of ?Q] qk obtain j where j: "findIndex ?Q ?ws = Some j" "j \<le> k"
    by auto
  show ?thesis
  proof (cases "j = k")
    case True
    with j same s' kl show ?thesis by (simp add: claimHeldBy_def)
  next
    case False
    with j have lt: "j < k" by simp
    from findIndex_first [OF k lt] have np: "\<not> ?P (?ws ! j)" .
    from findIndex_Some [OF j(1)] have "?Q (?ws ! j)" by simp
    with np iid have "collectorId (?ws ! j) \<noteq> Some (playerId c)" by simp
    with j same s' False show ?thesis by (simp add: claimHeldBy_def)
  qed
qed

lemma pickup_item_worldItems:
  assumes "pickup_item c data s = Some (s', out)"
  shows "worldItems s' = worldItems s
         \<or> (\<exists>k. k < length (worldItems s)
               \<and> worldItems s' = (worldItems s)
                    [k := (worldItems s ! k)\<lparr>beingCollected := True,
                                               collectorId := Some (playerId c)\<rparr>])"
proof (cases "findIndex (\<lambda>i. Some (itemId i) = msg_itemId data) (worldItems s)")
  case None
  with assms show ?thesis by (simp add: pickup_item_def)
next
  case (Some k)
  from findIndex_Some [OF Some] have "k < length (worldItems s)" by simp
  with assms Some show ?thesis
    by (auto simp: pickup_item_def Let_def split: option.splits if_splits)
qed

lemma pickup_by_other_keeps_unheld:
  assumes run: "pickup_item c data s = Some (s', out)"
    and unheld: "\<not> claimHeldBy s iid p"
    and other: "p \<noteq> playerId c"
  shows "\<not> claimHeldBy s' iid p"
proof -
  let ?ws = "worldItems s"
  let ?Q = "\<lambda>i. itemId i = iid"
  from pickup_item_worldItems [OF run] show ?thesis
  proof (elim disjE exE conjE)
    assume "worldItems s' = ?ws"
    with unheld show ?thesis by (auto simp: claimHeldBy_def split: option.splits)
  next
    fix k
    assume k: "k < length ?ws"
      and s': "worldItems s' =
                 ?ws[k := (?ws ! k)\<lparr>beingCollected := True, collectorId := Some (playerId c)\<rparr>]"
    have same: "findIndex ?Q (worldItems s') = findIndex ?Q ?ws"
      unfolding s' by (rule findIndex_list_update [OF k]) simp
    show ?thesis
    proof (cases "findIndex ?Q ?ws")
      case None
      with same show ?thesis by (simp add: claimHeldBy_def)
    next
      case (Some j)
      with unheld have "collectorId (?ws ! j) \<noteq> Some p" by (simp add: claimHeldBy_def)
      with Some same s' k other show ?thesis
        by (cases "j = k") (simp_all add: claimHeldBy_def)
    qed
  qed
qed

lemma pickup_keeps_claims:
  assumes "pickup_item c data s = Some (s', out)"
    and "j < length (worldItems s)"
    and "beingCollected (worldItems s ! j)"
  shows "worldItems s' ! j = worldItems s ! j"
  using assms
  by (auto simp: pickup_item_def Let_def nth_list_update dest: findIndex_Some
           split: option.splits if_splits)

section \<open>What the timer's guard does achieve\<close>

text \<open>
  Right after the holder's own successful cancel the timer is void, and it stays void
  when a different player then claims the item.
\<close>

lemma timer_after_cancel_is_void:
  assumes "cancel_collection c data s0 = Some (s, out)" and "out \<noteq> []"
    and "msg_itemId data = Some (itemId (timer_item tm))"
    and "playerId c = timer_playerId tm"
  shows "collectionTimeout tm s = Inr (s, [])"
  using assms cancel_releases_claim [of c data s0 s out "itemId (timer_item tm)"]
  by (simp add: timeout_without_claim)

lemma timer_after_other_pickup_is_void:
  assumes "pickup_item c data s1 = Some (s, out)"
    and "\<not> claimHeldBy s1 (itemId (timer_item tm)) (timer_playerId tm)"
    and "playerId c \<noteq> timer_playerId tm"
  shows "collectionTimeout tm s = Inr (s, [])"
  using assms pickup_by_other_keeps_unheld
          [of c data s1 s out "itemId (timer_item tm)" "timer_playerId tm"]
  by (auto simp: timeout_without_claim)

section \<open>The damage an accepted attack applies\<close>

lemma attack_player_applies_damage:
  assumes "lookupPlayer s (msg_targetPlayerId data) = Own tgt"
    and "players s (playerId c) = Some me"
    and "findIndex (\<lambda>i. Some (itemId i) = msg_weaponId data \<and> item_type i = ''weapon'')
           (inventory me) = Some w"
    and "player_position me = Some attackerPos"
    and "player_position tgt = Some targetPos"
    and "actionInRange targetPos attackerPos"
  shows "map_option fst (attack_player c data s) =
           Some (s\<lparr>players := (players s)(keyOf (msg_targetPlayerId data) \<mapsto>
                   tgt\<lparr>hp := max 0 (fl (hp tgt - orDefault (msg_damage data) 5))\<rparr>)\<rparr>)"
  using assms
  by (auto simp: attack_player_def Let_def split: option.splits property.splits)

section \<open>The characters the name filter keeps\<close>

lemma of_char_underscore: "((of_char c :: nat) = 95) = (c = CHR ''_'')"
proof -
  have "(of_char (CHR ''_'') :: nat) = 95" by simp
  then show ?thesis by (metis of_char_eq_iff)
qed

lemma keptChar_iff:
  "keptChar ch = (isAlphanumeric ch \<or> ch = CHR ''_'' \<or> isSpaceChar ch \<or> ch = CHR ''-'')"
  by (auto simp: keptChar_def isWordChar_def isAlphanumeric_def Let_def of_char_underscore)

section \<open>The claims\<close>

subsection \<open>C1: health after an attack or a heal\<close>

text \<open>
  C1 says that after every \<open>attack_player\<close> or \<open>heal_player\<close> the affected player's
  \<open>hp\<close> lies in \<open>[0, 100]\<close>, whatever damage the client sends, negative values
  included. \<open>attack_player\<close> bounds the new value below only
  (\<open>Math.max(0, hp - damage)\<close>), while both heal paths bound it above by 100. In the
  run below Alice collects the sword and attacks Bob, who has just connected with
  \<open>hp = 100\<close>, with \<open>damage = -50\<close>: Bob's \<open>hp\<close> becomes 150.
\<close>

theorem attack_negative_damage_exceeds_max:
  "(case run [Connect alice ''av'' stamps,
              Message alice [] (pickup swordId),
              Fire 0,
              Connect bob ''av'' stamps,
              Message alice [] (attack ''p-bob'' swordId (Some (- 50)))]
             (initialState [''av'']) of
      Inl err \<Rightarrow> None
    | Inr (s, out) \<Rightarrow> map_option hp (players s ''p-bob'')) = Some 150"
  by (simp add: model_defs example_defs)

subsection \<open>C2: a claimed item cannot be claimed by a second player\<close>

text \<open>
  C2: the holder of a claim is the single \<open>collectorId\<close> of the item, so an item has at
  most one holder. When a player within range sends \<open>pickup_item\<close> for an item that
  another player is collecting, the requester gets \<open>collection_error\<close> (followed by
  the usual \<open>world_update\<close>) and the whole state, the claim included, is unchanged.
  More generally no \<open>pickup_item\<close>, whoever sends it, changes an item that is being
  collected.
\<close>

theorem pickup_claimed_by_other:
  assumes "resolveTarget c data = playerId c"
    and "msg_type data = ''pickup_item''"
    and "findIndex (\<lambda>i. Some (itemId i) = msg_itemId data) (worldItems s) = Some k"
    and "players s (playerId c) = Some me"
    and "item_position (worldItems s ! k) = Some itemPos"
    and "player_position me = Some playerPos"
    and "pickupInRange itemPos playerPos"
    and "beingCollected (worldItems s ! k)"
    and "collectorId (worldItems s ! k) = Some q"
    and "q \<noteq> playerId c"
  shows "onMessage c stamp data s =
           (s, (clientId c, CollectionError ''This item is being collected by another player'')
               # broadcast s)
         \<and> beingCollected (worldItems (fst (onMessage c stamp data s)) ! k)
         \<and> collectorId (worldItems (fst (onMessage c stamp data s)) ! k) = Some q
         \<and> (\<forall>c' data' s' out' j.
               pickup_item c' data' s = Some (s', out') \<and> j < length (worldItems s)
               \<and> beingCollected (worldItems s ! j)
               \<longrightarrow> worldItems s' ! j = worldItems s ! j)"
proof -
  have "onMessage c stamp data s =
           (s, (clientId c, CollectionError ''This item is being collected by another player'')
               # broadcast s)"
    using assms by (simp add: onMessage_def dispatch_pickup_item pickup_item_def Let_def)
  moreover have "\<forall>c' data' s' out' j.
               pickup_item c' data' s = Some (s', out') \<and> j < length (worldItems s)
               \<and> beingCollected (worldItems s ! j)
               \<longrightarrow> worldItems s' ! j = worldItems s ! j"
    using pickup_keeps_claims by blast
  ultimately show ?thesis using assms by simp
qed

theorem pickup_claimed_by_other_witness:
  "findIndex (\<lambda>i. Some (itemId i) = msg_itemId (pickup droppedId)) (worldItems duel) = Some 1
   \<and> collectorId (worldItems duel ! 1) = Some ''p-alice''
   \<and> pickupInRange \<lparr>lat = 0, lng = fl 0.001\<rparr> \<lparr>lat = 0, lng = fl 0.0002\<rparr>
   \<and> onMessage bob [] (pickup droppedId) duel =
         (duel, (''c-bob'', CollectionError ''This item is being collected by another player'')
                # broadcast duel)"
  using pickup_claimed_by_other
          [where c = bob and data = "pickup droppedId" and s = duel and k = 1 and me = duelBob
             and itemPos = "\<lparr>lat = 0, lng = fl 0.001\<rparr>"
             and playerPos = "\<lparr>lat = 0, lng = fl 0.0002\<rparr>"
             and q = "''p-alice''" and stamp = "[]"]
  by (simp add: example_defs bob_def message_def resolveTarget_def newPlayer_def
        pickupInRange_def distance_def Math_pow2_def fl_values fl_numeral fl_zero fl_minus
        Math_sqrt_evals)

subsection \<open>C3: the holder disconnects\<close>

text \<open>
  C3 says that when the holder of a claim disconnects before the timer completes, the
  item goes back to unclaimed and any other player can pick it up at once.
  \<open>ws.on("close")\<close> deletes the session and the player and leaves \<open>worldItems\<close> alone.
  In the run below Alice claims the potion and disconnects; Bob, in range, then asks for
  the potion: he gets \<open>collection_error\<close> and the potion is still claimed by Alice.
\<close>

theorem close_leaves_claim:
  "(case run [Connect alice ''av'' stamps,
              Connect bob ''av'' stamps,
              Message alice [] (pickup potionId),
              Close alice,
              Message bob [] (pickup potionId)]
             (initialState [''av'']) of
      Inl err \<Rightarrow> None
    | Inr (s, out) \<Rightarrow>
        Some (take 1 out,
              map (\<lambda>i. (beingCollected i, collectorId i))
                  (filter (\<lambda>i. itemId i = potionId) (worldItems s))))
   = Some ([(''c-bob'', CollectionError ''This item is being collected by another player'')],
           [(True, Some ''p-alice'')])"
  by (simp add: model_defs example_defs)

text \<open>When Alice's timer then elapses, its callback reads a property of the deleted
  player: the \<open>TypeError\<close> is uncaught.\<close>

lemma timer_after_close_throws:
  "run [Connect alice ''av'' stamps,
        Message alice [] (pickup potionId),
        Close alice,
        Fire 0]
       (initialState [''av'']) = Inl TypeError"
  by (simp add: model_defs example_defs)

subsection \<open>C4: a timer that fires after its claim is gone\<close>

text \<open>
  C4 says that a firing whose claim was cancelled, or whose item was claimed anew by a
  different holder, is a no-op, and that in particular a cancel followed by a new pickup
  never gives a completion driven by the earlier timer. The callback checks that the
  item still exists and that its \<open>collectorId\<close> is the timer's player; the timer of a
  cancelled collection is never cleared. In the run below Alice claims the sword, cancels,
  claims it again (and is told a fresh collection time), and the first timer elapses: it
  completes the collection, the sword is in her inventory and gone from the world, while
  the timer of the second claim is still pending.
\<close>

theorem stale_timer_completes_repickup:
  "(case run [Connect alice ''av'' stamps,
              Message alice [] (pickup swordId),
              Message alice [] (cancel swordId),
              Message alice [] (pickup swordId),
              Fire 0]
             (initialState [''av'']) of
      Inl err \<Rightarrow> None
    | Inr (s, out) \<Rightarrow>
        Some (map_option (map itemId \<circ> inventory) (players s ''p-alice''),
              list_ex (\<lambda>i. itemId i = swordId) (worldItems s),
              length (timers s)))
   = Some (Some [swordId], False, 1)"
  by (simp add: model_defs example_defs)

subsection \<open>C5: the proximity thresholds\<close>




subsection \<open>C6: pickup of an unknown item\<close>

text \<open>
  C6 says that a \<open>pickup_item\<close> whose \<open>itemId\<close> matches no world item gets an
  item-not-found error reply and changes nothing. The handler's branch for a missing item
  only logs. In the run below Alice asks for an item that does not exist: the only
  message sent is the \<open>world_update\<close>.
\<close>

theorem pickup_unknown_item_no_reply:
  "(case run [Connect alice ''av'' stamps,
              Message alice [] (pickup ''no-such-item'')]
             (initialState [''av'']) of
      Inl err \<Rightarrow> []
    | Inr (s, out) \<Rightarrow> map (\<lambda>(to, m). (to, isWorldUpdate m)) out) = [(''c-alice'', True)]"
  by (simp add: model_defs example_defs isWorldUpdate_def)

text \<open>
  C6 as amended: such a request changes no state and is answered by no error reply; the
  only messages sent are the \<open>world_update\<close> to every open connection.
\<close>

theorem pickup_unknown_item:
  assumes "resolveTarget c data = playerId c"
    and "msg_type data = ''pickup_item''"
    and "findIndex (\<lambda>i. Some (itemId i) = msg_itemId data) (worldItems s) = None"
  shows "onMessage c stamp data s = (s, broadcast s)"
  using assms by (simp add: onMessage_def dispatch_pickup_item pickup_item_def)

theorem pickup_unknown_item_witness:
  "findIndex (\<lambda>i. Some (itemId i) = msg_itemId (pickup ''no-such-item'')) (worldItems duel) = None
   \<and> onMessage alice [] (pickup ''no-such-item'') duel = (duel, broadcast duel)"
  using pickup_unknown_item
          [where c = alice and data = "pickup ''no-such-item''" and s = duel and stamp = "[]"]
  by (simp add: example_defs alice_def message_def resolveTarget_def)

subsection \<open>C7: a message aimed at another player\<close>

text \<open>
  C7: a message other than \<open>view_profile\<close> whose resolved target (\<open>data.playerId\<close>, or
  the session's own player when that is absent or empty) is not the player bound to the
  sender's session is dropped: no state change, nothing sent.
\<close>

theorem unauthorized_message_dropped:
  assumes "clientSessions s (clientId c) = Some (playerId c)"
    and "msg_type data \<noteq> ''view_profile''"
    and "resolveTarget c data \<noteq> playerId c"
  shows "onMessage c stamp data s = (s, [])"
  using assms by (simp add: onMessage_def isAuthorizedForPlayer_def)

theorem unauthorized_message_dropped_witness:
  "resolveTarget alice ((message ''chat_message'')\<lparr>msg_playerId := Some ''p-bob'',
                                                    msg_message := Some ''hi''\<rparr>) = ''p-bob''
   \<and> onMessage alice []
        ((message ''chat_message'')\<lparr>msg_playerId := Some ''p-bob'', msg_message := Some ''hi''\<rparr>)
        duel = (duel, [])"
  using unauthorized_message_dropped
          [where c = alice and s = duel and stamp = "[]"
             and data = "(message ''chat_message'')\<lparr>msg_playerId := Some ''p-bob'',
                                                      msg_message := Some ''hi''\<rparr>"]
  by (simp add: example_defs alice_def message_def resolveTarget_def)

subsection \<open>C8: what a profile view sends\<close>

text \<open>
  C8 says that a \<open>view_profile\<close> request produces the \<open>profile_data\<close> reply and nothing
  else, in particular no \<open>world_update\<close>, while every state-changing action ends with
  the full broadcast. The broadcast stands after the \<open>switch\<close>, so every case that
  leaves the \<open>switch\<close> reaches it, \<open>view_profile\<close> included. In the run below Alice
  views her own profile: she is sent \<open>profile_data\<close> and then a \<open>world_update\<close>.
\<close>

theorem view_profile_sends_world_update:
  "(case run [Connect alice ''av'' stamps,
              Message alice [] ((message ''view_profile'')\<lparr>msg_profilePlayerId := Some ''p-alice''\<rparr>)]
             (initialState [''av'']) of
      Inl err \<Rightarrow> []
    | Inr (s, out) \<Rightarrow> map (\<lambda>(to, m). (to, isWorldUpdate m)) out)
   = [(''c-alice'', False), (''c-alice'', True)]"
  by (simp add: model_defs example_defs isWorldUpdate_def)

text \<open>
  C8 as amended: a \<open>view_profile\<close> request changes no state and sends the
  \<open>profile_data\<close> reply whenever \<open>players[profilePlayerId]\<close> is truthy (with the player's
  record when the key is a player, without one when the key is only inherited from
  \<open>Object.prototype\<close>), followed by the \<open>world_update\<close> to every open connection; and
  every inbound message that changes the state ends with that \<open>world_update\<close> of the new
  state.
\<close>

theorem view_profile_broadcasts:
  "(msg_type data = ''view_profile'' \<longrightarrow>
      onMessage c stamp data s =
        (s, (case lookupPlayer s (msg_profilePlayerId data) of
               Missing \<Rightarrow> []
             | Inherited \<Rightarrow>
                 [(clientId c, ProfileData None (msg_profilePlayerId data = Some (playerId c)))]
             | Own p \<Rightarrow>
                 [(clientId c, ProfileData (Some p) (msg_profilePlayerId data = Some (playerId c)))])
            @ broadcast s))
   \<and> (fst (onMessage c stamp data s) \<noteq> s \<longrightarrow>
        (\<exists>out. snd (onMessage c stamp data s) = out @ broadcast (fst (onMessage c stamp data s))))"
proof (intro conjI impI)
  assume "msg_type data = ''view_profile''"
  then show "onMessage c stamp data s =
        (s, (case lookupPlayer s (msg_profilePlayerId data) of
               Missing \<Rightarrow> []
             | Inherited \<Rightarrow>
                 [(clientId c, ProfileData None (msg_profilePlayerId data = Some (playerId c)))]
             | Own p \<Rightarrow>
                 [(clientId c, ProfileData (Some p) (msg_profilePlayerId data = Some (playerId c)))])
            @ broadcast s)"
    by (rule onMessage_view_profile)
next
  assume changed: "fst (onMessage c stamp data s) \<noteq> s"
  from onMessage_cases [of c stamp data s] changed
  obtain s' out where "onMessage c stamp data s = (s', out @ broadcast s')" by auto
  then show "\<exists>out. snd (onMessage c stamp data s) = out @ broadcast (fst (onMessage c stamp data s))"
    by auto
qed

theorem view_profile_broadcasts_witness:
  "onMessage alice [] (viewProfile ''p-bob'') duel
     = (duel, (''c-alice'', ProfileData (Some duelBob) False) # broadcast duel)
   \<and> onMessage alice [] (viewProfile ''toString'') duel
     = (duel, (''c-alice'', ProfileData None False) # broadcast duel)
   \<and> onMessage alice [] (viewProfile ''nobody'') duel = (duel, broadcast duel)
   \<and> fst (onMessage alice [] (moveTo 1 1) duel) \<noteq> duel
   \<and> (\<exists>out. snd (onMessage alice [] (moveTo 1 1) duel)
              = out @ broadcast (fst (onMessage alice [] (moveTo 1 1) duel)))"
proof -
  have v: "onMessage alice [] (viewProfile ''p-bob'') duel
             = (duel, (''c-alice'', ProfileData (Some duelBob) False) # broadcast duel)"
    using view_profile_broadcasts [of "viewProfile ''p-bob''" alice "[]" duel]
    by (simp add: viewProfile_def message_def lookupPlayer_def keyOf_def duel_def alice_def)
  have i: "onMessage alice [] (viewProfile ''toString'') duel
             = (duel, (''c-alice'', ProfileData None False) # broadcast duel)"
    using view_profile_broadcasts [of "viewProfile ''toString''" alice "[]" duel]
    by (simp add: viewProfile_def message_def lookupPlayer_def keyOf_def inheritedKeys_def
          duel_def alice_def)
  have n: "onMessage alice [] (viewProfile ''nobody'') duel = (duel, broadcast duel)"
    using view_profile_broadcasts [of "viewProfile ''nobody''" alice "[]" duel]
    by (simp add: viewProfile_def message_def lookupPlayer_def keyOf_def inheritedKeys_def
          duel_def alice_def)
  have "player_position (the (players (fst (onMessage alice [] (moveTo 1 1) duel)) ''p-alice''))
          = Some \<lparr>lat = 1, lng = 1\<rparr>"
    by (simp add: onMessage_def dispatch_def update_position_def resolveTarget_def Let_def
          moveTo_def message_def duel_def alice_def)
  moreover have "player_position (the (players duel ''p-alice'')) = Some \<lparr>lat = 0, lng = 0\<rparr>"
    by (simp add: duel_def duelAlice_def)
  ultimately have m: "fst (onMessage alice [] (moveTo 1 1) duel) \<noteq> duel" by auto
  with view_profile_broadcasts [of "moveTo 1 1" alice "[]" duel]
  have "\<exists>out. snd (onMessage alice [] (moveTo 1 1) duel)
              = out @ broadcast (fst (onMessage alice [] (moveTo 1 1) duel))" by blast
  with v i n m show ?thesis by blast
qed

subsection \<open>C9: the sanitised display name\<close>

text \<open>
  C9 says that after an \<open>update_profile\<close> with a name the stored name is the input
  without every character outside the alphanumeric, space and hyphen set, cut to 20
  characters. The source removes what does not match \<open>[\w\s-]\<close>: \<open>\w\<close> has the
  underscore, \<open>\s\<close> has every white-space character. In the run below Alice sends the
  name \<open>a_b\<close>: the stored name is \<open>a_b\<close>, where the claim's wording gives \<open>ab\<close>.
\<close>

theorem update_profile_keeps_underscore:
  "(case run [Connect alice ''av'' stamps,
              Message alice [] ((message ''update_profile'')\<lparr>msg_name := Some ''a_b''\<rparr>)]
             (initialState [''av'']) of
      Inl err \<Rightarrow> None
    | Inr (s, out) \<Rightarrow> map_option player_name (players s ''p-alice'')) = Some ''a_b''
   \<and> spec_sanitizeName ''a_b'' = ''ab''"
  by (simp add: model_defs example_defs sanitizeName_def keptChar_def isWordChar_def
        isSpaceChar_def spec_sanitizeName_def isAlphanumeric_def)

text \<open>
  C9 as amended: after an authorised \<open>update_profile\<close> with a non-empty name, the stored
  name is the input without every character that is not a letter, a digit, an underscore,
  a white-space character or a hyphen, cut to at most 20 characters.
\<close>

theorem update_profile_sanitizes:
  assumes "resolveTarget c data = playerId c"
    and "msg_type data = ''update_profile''"
    and "msg_name data = Some n"
    and "n \<noteq> []"
    and "players s (playerId c) = Some me"
  shows "players (fst (onMessage c stamp data s)) (playerId c)
           = Some (me\<lparr>player_name :=
                take 20 (filter (\<lambda>ch. isAlphanumeric ch \<or> ch = CHR ''_'' \<or> isSpaceChar ch
                                        \<or> ch = CHR ''-'') n)\<rparr>)"
proof -
  have "keptChar = (\<lambda>ch. isAlphanumeric ch \<or> ch = CHR ''_'' \<or> isSpaceChar ch \<or> ch = CHR ''-'')"
    by (rule ext) (rule keptChar_iff)
  with assms show ?thesis
    by (simp add: onMessage_def dispatch_update_profile update_profile_def sanitizeName_def
          Let_def)
qed

theorem update_profile_sanitizes_witness:
  "map_option player_name
     (players (fst (onMessage alice []
                      ((message ''update_profile'')\<lparr>msg_name := Some ''<script>Evil_1</script>''\<rparr>)
                      duel)) ''p-alice'')
   = Some ''scriptEvil_1script''"
  using update_profile_sanitizes
          [where c = alice and s = duel and stamp = "[]" and me = duelAlice
             and n = "''<script>Evil_1</script>''"
             and data = "(message ''update_profile'')\<lparr>msg_name := Some ''<script>Evil_1</script>''\<rparr>"]
  by (simp add: resolveTarget_def message_def alice_def duel_def isAlphanumeric_def
        isSpaceChar_def)

subsection \<open>C10: the damage of an attack\<close>

text \<open>
  C10 says that an accepted attack subtracts the message's \<open>damage\<close> when the field is
  present and 5 otherwise, and that the weapon's \<open>attack\<close> stat plays no part. The
  handler computes \<open>data.damage || 5\<close>, commented "Default damage if not specified",
  and 0 is falsy. In the run below Alice attacks Bob (\<open>hp = 100\<close>) with \<open>damage = 0\<close>:
  Bob's \<open>hp\<close> becomes 95.
\<close>

theorem attack_zero_damage_uses_default:
  "(case run [Connect alice ''av'' stamps,
              Message alice [] (pickup swordId),
              Fire 0,
              Connect bob ''av'' stamps,
              Message alice [] (attack ''p-bob'' swordId (Some 0))]
             (initialState [''av'']) of
      Inl err \<Rightarrow> None
    | Inr (s, out) \<Rightarrow> map_option hp (players s ''p-bob'')) = Some 95"
  by (simp add: model_defs example_defs)

end
